theory Spec2Isabelle
  imports Complex_Main
begin

section \<open>Python numbers\<close>

text \<open>
  A finite Python float is the real number it stands for; a float that can be NaN is a
  \<open>py_float\<close>. \<open>py_int\<close> is Python's \<^verbatim>\<open>int(x)\<close> on a float: it truncates toward
  zero. \<open>py_round\<close> is Python's one-argument \<^verbatim>\<open>round(x)\<close>: to the nearest
  integer, a tie going to the even neighbour. \<open>py_round2\<close> is \<^verbatim>\<open>round(x, 2)\<close>.
\<close>

datatype py_float = Float real | NaN

definition py_int :: "real \<Rightarrow> int" where
  "py_int x = (if 0 \<le> x then \<lfloor>x\<rfloor> else \<lceil>x\<rceil>)"

definition py_round :: "real \<Rightarrow> int" where
  "py_round x =
     (let f = \<lfloor>x\<rfloor>; d = x - of_int f
      in if d < 1 / 2 then f
         else if 1 / 2 < d then f + 1
         else if even f then f else f + 1)"

definition py_round2 :: "real \<Rightarrow> real" where
  "py_round2 x = of_int (py_round (x * 100)) / 100"

subsection \<open>Double precision\<close>

text \<open>
  Python's floats are IEEE 754 doubles. \<open>fl x\<close> is the double nearest to the real
  \<open>x\<close>, a tie going to the even significand: with \<open>e\<close> the exponent of \<open>x\<close> (at least
  the least normal exponent -1022, so that small numbers are rounded on the subnormal
  grid), \<open>x\<close> is rounded to a multiple of \<open>2 ^ (e - 52)\<close>. A decimal literal \<open>c\<close> of
  the source denotes the double \<open>fl c\<close>, and each arithmetic operation on floats returns
  the double nearest to the exact result. Overflow to infinity is not modelled: the
  model is that of the program as long as the results stay below \<open>2 ^ 1024\<close> in
  magnitude. The tables below hold the decimal literals as they are written in the
  source; \<open>fl\<close> is applied where a table entry enters an operation.
\<close>

definition float_exponent :: "real \<Rightarrow> int" where
  "float_exponent x = max (- 1022) \<lfloor>log 2 \<bar>x\<bar>\<rfloor>"

definition fl :: "real \<Rightarrow> real" where
  "fl x =
     (if x = 0 then 0
      else let ulp = 2 powi (float_exponent x - 52)
           in sgn x * of_int (py_round (\<bar>x\<bar> / ulp)) * ulp)"

text \<open>The magnitude of the rounded value.\<close>

definition fl_mag :: "real \<Rightarrow> real" where
  "fl_mag x =
     of_int (py_round (\<bar>x\<bar> / 2 powi (float_exponent x - 52)))
       * 2 powi (float_exponent x - 52)"

definition float_mul :: "real \<Rightarrow> real \<Rightarrow> real" where
  "float_mul x y = fl (x * y)"

definition float_add :: "real \<Rightarrow> real \<Rightarrow> real" where
  "float_add x y = fl (x + y)"

definition float_div :: "real \<Rightarrow> real \<Rightarrow> real" where
  "float_div x y = fl (x / y)"

section \<open>Prediction service (src/main.py)\<close>

subsection \<open>Tables\<close>

definition METRO_STATIONS :: "string list" where
  "METRO_STATIONS =
     [''Ghatkopar'', ''Andheri'', ''Versova'', ''Aarey'', ''Dahisar East'',
      ''DN Nagar'', ''Azad Nagar'', ''Western Express Highway'', ''Marol Naka'',
      ''Airport Road'']"

definition RAILWAY_STATIONS :: "string list" where
  "RAILWAY_STATIONS =
     [''Andheri West'', ''Bandra'', ''Dadar'', ''Borivali'', ''Malad'',
      ''Goregaon'', ''Jogeshwari'', ''Vile Parle'', ''Santa Cruz'', ''Khar Road'']"

definition BUS_STATIONS :: "string list" where
  "BUS_STATIONS =
     [''Andheri Bus Depot'', ''Kurla Bus Station'', ''Borivali Bus Depot'',
      ''Ghatkopar Bus Stand'', ''Bandra Bus Stand'', ''Dadar Bus Terminal'',
      ''Malad Bus Depot'', ''Goregaon Bus Depot'', ''Versova Bus Stand'',
      ''DN Nagar Bus Stop'']"

definition TRAFFIC_SIGNALS :: "string list" where
  "TRAFFIC_SIGNALS =
     [''Amboli Naka'', ''Andheri Station Signal'', ''Western Express Highway Junction'',
      ''Versova Junction'', ''DN Nagar Signal'', ''Azad Nagar Junction'',
      ''Ghatkopar Junction'', ''Airport Road Signal'', ''Marol Naka Signal'',
      ''Aarey Signal'']"

text \<open>
  A Python dict literal is an association list in the order it is written; iteration over
  \<^verbatim>\<open>.items()\<close> follows that order, a lookup is \<open>map_of\<close>.
\<close>

definition AREA_MAPPING :: "(string \<times> (string \<times> string list) list) list" where
  "AREA_MAPPING =
     [(''Andheri'',
        [(''metro'', [''Andheri'']), (''railway'', [''Andheri West'']),
         (''bus'', [''Andheri Bus Depot'']),
         (''signals'', [''Andheri Station Signal'', ''Amboli Naka''])]),
      (''Versova'',
        [(''metro'', [''Versova'']), (''railway'', []),
         (''bus'', [''Versova Bus Stand'']), (''signals'', [''Versova Junction''])]),
      (''Ghatkopar'',
        [(''metro'', [''Ghatkopar'']), (''railway'', []),
         (''bus'', [''Ghatkopar Bus Stand'']), (''signals'', [''Ghatkopar Junction''])]),
      (''DN Nagar'',
        [(''metro'', [''DN Nagar'']), (''railway'', []),
         (''bus'', [''DN Nagar Bus Stop'']), (''signals'', [''DN Nagar Signal''])]),
      (''Bandra'',
        [(''metro'', []), (''railway'', [''Bandra'']),
         (''bus'', [''Bandra Bus Stand'']), (''signals'', [])]),
      (''Dadar'',
        [(''metro'', []), (''railway'', [''Dadar'']),
         (''bus'', [''Dadar Bus Terminal'']), (''signals'', [])]),
      (''Borivali'',
        [(''metro'', []), (''railway'', [''Borivali'']),
         (''bus'', [''Borivali Bus Depot'']), (''signals'', [])])]"

definition HOUR_MULTIPLIERS :: "(int \<times> real) list" where
  "HOUR_MULTIPLIERS =
     [(0, 0.3), (1, 0.2), (2, 0.2), (3, 0.2), (4, 0.3), (5, 0.4),
      (6, 0.5), (7, 0.8), (8, 1.3), (9, 1.5), (10, 1.2), (11, 1.0),
      (12, 0.9), (13, 0.8), (14, 0.7), (15, 0.8), (16, 0.9), (17, 1.2),
      (18, 1.5), (19, 1.4), (20, 1.2), (21, 0.9), (22, 0.7), (23, 0.5)]"

definition TRANSPORT_MULTIPLIERS :: "(string \<times> real) list" where
  "TRANSPORT_MULTIPLIERS =
     [(''metro'', 1.0), (''railway'', 1.3), (''bus'', 0.8), (''signal'', 1.2)]"

text \<open>\<^verbatim>\<open>d.get(k, default)\<close> on a dict.\<close>

definition dict_get :: "('k \<times> 'v) list \<Rightarrow> 'k \<Rightarrow> 'v \<Rightarrow> 'v" where
  "dict_get d k dflt = (case map_of d k of Some v \<Rightarrow> v | None \<Rightarrow> dflt)"

subsection \<open>Helper functions\<close>

definition get_transport_type :: "string \<Rightarrow> string option" where
  "get_transport_type location_name =
     (if location_name \<in> set METRO_STATIONS then Some ''metro''
      else if location_name \<in> set RAILWAY_STATIONS then Some ''railway''
      else if location_name \<in> set BUS_STATIONS then Some ''bus''
      else if location_name \<in> set TRAFFIC_SIGNALS then Some ''signal''
      else None)"

text \<open>
  In \<^verbatim>\<open>calculate_congestion_level\<close> the multiplier is the literal of the hour table
  and the product with the transport factor is exact. The program compares the doubles;
  \<open>congestion_level_in_floats\<close> below shows that the outcome is the same for the
  multiplier of every hour, every transport type and every footfall.
\<close>

definition calculate_congestion_level :: "int \<Rightarrow> string \<Rightarrow> real \<Rightarrow> string" where
  "calculate_congestion_level footfall transport_type multiplier =
     (let transport_factor = dict_get TRANSPORT_MULTIPLIERS transport_type 1.0;
          adjusted_footfall = of_int footfall * transport_factor
      in if 1.2 < multiplier \<and> 5000 < adjusted_footfall then ''High''
         else if 0.9 < multiplier \<and> 3000 < adjusted_footfall then ''Medium''
         else ''Low'')"

text \<open>
  \<^verbatim>\<open>calculate_current_footfall\<close> reads the wall clock; the hour it reads is the
  first argument of the model. The product is a product of floats. The multiplier is
  returned as the literal of the table: \<^verbatim>\<open>calculate_congestion_level\<close> only
  compares it with the literals 1.2 and 0.9, and two literals of the table compare as
  their doubles do.
\<close>

definition calculate_current_footfall :: "int \<Rightarrow> real \<Rightarrow> int \<times> real" where
  "calculate_current_footfall current_hour base_footfall =
     (let multiplier = dict_get HOUR_MULTIPLIERS current_hour 0.8
      in (py_int (float_mul base_footfall (fl multiplier)), multiplier))"

text \<open>
  The estimator: lines 250 and 253 of \<^verbatim>\<open>get_location_prediction\<close>, the current
  footfall and the level computed from it.
\<close>

definition estimate :: "int \<Rightarrow> real \<Rightarrow> string \<Rightarrow> int \<times> string" where
  "estimate current_hour base_footfall transport_type =
     (let (current_footfall, multiplier) =
            calculate_current_footfall current_hour base_footfall;
          congestion =
            calculate_congestion_level current_footfall transport_type multiplier
      in (current_footfall, congestion))"

definition level_score :: "string \<Rightarrow> int" where
  \<comment> \<open>the dict literal of line 296 and its \<^verbatim>\<open>.get(congestion, 1)\<close>\<close>
  "level_score congestion =
     dict_get [(''High'', 3), (''Medium'', 2), (''Low'', 1)] congestion 1"

section \<open>Data generator service (src/data/main.py)\<close>

subsection \<open>Tables and request types\<close>

definition BASE_FOOTFALL :: "(string \<times> int) list" where
  "BASE_FOOTFALL =
     [(''metro'', 5000), (''railway'', 8000), (''bus'', 3000), (''signal'', 4000)]"

definition LOCATION_MULTIPLIERS :: "(string \<times> real) list" where
  "LOCATION_MULTIPLIERS =
     [(''Ghatkopar'', 1.2), (''Andheri'', 1.5), (''Versova'', 0.9), (''Aarey'', 0.7),
      (''Dahisar East'', 0.8), (''DN Nagar'', 1.0), (''Azad Nagar'', 0.85),
      (''Western Express Highway'', 1.1), (''Marol Naka'', 1.3), (''Airport Road'', 1.4),
      (''Andheri West'', 1.6), (''Bandra'', 1.7), (''Dadar'', 1.8), (''Borivali'', 1.5),
      (''Malad'', 1.3), (''Goregaon'', 1.2), (''Jogeshwari'', 1.1), (''Vile Parle'', 1.3),
      (''Santa Cruz'', 1.2), (''Khar Road'', 1.4), (''Andheri Bus Depot'', 1.2),
      (''Kurla Bus Station'', 1.3), (''Borivali Bus Depot'', 1.1),
      (''Ghatkopar Bus Stand'', 1.0), (''Bandra Bus Stand'', 1.2),
      (''Dadar Bus Terminal'', 1.4), (''Malad Bus Depot'', 1.0),
      (''Goregaon Bus Depot'', 0.9), (''Versova Bus Stand'', 0.8),
      (''DN Nagar Bus Stop'', 0.9), (''Amboli Naka'', 1.3),
      (''Andheri Station Signal'', 1.5), (''Western Express Highway Junction'', 1.6),
      (''Versova Junction'', 1.0), (''DN Nagar Signal'', 0.9),
      (''Azad Nagar Junction'', 0.85), (''Ghatkopar Junction'', 1.2),
      (''Airport Road Signal'', 1.4), (''Marol Naka Signal'', 1.3), (''Aarey Signal'', 0.7)]"

datatype TransportType = metro | railway | bus | signal

fun TransportType_value :: "TransportType \<Rightarrow> string" where
  "TransportType_value metro = ''metro''"
| "TransportType_value railway = ''railway''"
| "TransportType_value bus = ''bus''"
| "TransportType_value signal = ''signal''"

text \<open>
  Errors are values. \<open>HTTPException\<close> carries the status code and the detail;
  \<open>RequestValidationError\<close> is the framework's rejection of a request body that
  violates the field constraints of its pydantic model; \<open>InternalServerError\<close> is the
  framework's answer when an exception escapes a route; \<open>KeyError\<close> is Python's.
\<close>

datatype http_error =
  HTTPException nat string | RequestValidationError | InternalServerError

datatype py_error = KeyError string

fun status_code :: "http_error \<Rightarrow> nat" where
  "status_code (HTTPException code detail) = code"
| "status_code RequestValidationError = 422"
| "status_code InternalServerError = 500"

record DataGenerationRequest =
  req_location_name :: string
  req_transport_type :: TransportType
  req_days :: int

text \<open>
  The field constraints of \<^verbatim>\<open>DataGenerationRequest\<close>: \<^verbatim>\<open>transport_type\<close> is a
  value of the enum, \<^verbatim>\<open>days\<close> has \<^verbatim>\<open>ge=1, le=365\<close>.
\<close>

definition parse_TransportType :: "string \<Rightarrow> TransportType option" where
  "parse_TransportType s =
     (if s = ''metro'' then Some metro
      else if s = ''railway'' then Some railway
      else if s = ''bus'' then Some bus
      else if s = ''signal'' then Some signal
      else None)"

definition parse_DataGenerationRequest ::
    "string \<Rightarrow> string \<Rightarrow> int \<Rightarrow> http_error + DataGenerationRequest" where
  "parse_DataGenerationRequest location_name transport_type days =
     (case parse_TransportType transport_type of
        None \<Rightarrow> Inl RequestValidationError
      | Some t \<Rightarrow>
          if 1 \<le> days \<and> days \<le> 365
          then Inr \<lparr>req_location_name = location_name, req_transport_type = t,
                    req_days = days\<rparr>
          else Inl RequestValidationError)"

subsection \<open>The series generator\<close>

text \<open>
  A calendar date is its proleptic Gregorian ordinal (Python's \<^verbatim>\<open>date.toordinal()\<close>,
  day 1 is Monday 0001-01-01), so \<^verbatim>\<open>d + timedelta(days=k)\<close> is \<open>d + k\<close> and
  \<^verbatim>\<open>d.weekday()\<close> is \<open>(d + 6) mod 7\<close> (Monday is 0). The \<^verbatim>\<open>'ds'\<close> column
  holds the date; its \<^verbatim>\<open>%Y-%m-%d\<close> text is not modelled.

  The environment of a call is the date \<^verbatim>\<open>datetime.now()\<close> returns, the draws
  of the random source (for the iteration of day \<open>k\<close>, the value of
  \<^verbatim>\<open>np.random.normal(0, base * 0.05)\<close>, of \<^verbatim>\<open>np.random.random()\<close> and, used
  only when the event fires, of \<^verbatim>\<open>np.random.uniform(1.2, 1.5)\<close>), and the
  library's sine on doubles, \<^verbatim>\<open>np.sin\<close>, whose last bit the library does not
  specify. \<^verbatim>\<open>np.pi\<close> is the double nearest to \<open>pi\<close>.
\<close>

record day_draws =
  draw_normal :: real
  draw_random :: real
  draw_uniform :: real

record gen_env =
  env_today :: int
  env_draws :: "nat \<Rightarrow> day_draws"
  env_sin :: "real \<Rightarrow> real"

record entry =
  entry_ds :: int
  entry_y :: int

definition weekday :: "int \<Rightarrow> int" where
  "weekday d = (d + 6) mod 7"

text \<open>
  The body of the loop of \<^verbatim>\<open>generate_transport_data\<close> (lines 130 to 154). The
  integers \<^verbatim>\<open>base\<close>, \<^verbatim>\<open>day\<close>, \<^verbatim>\<open>days\<close> and the weekday are converted to
  floats exactly; every operation on floats is rounded, in the order in which Python
  evaluates the expressions.
\<close>

definition day_entry ::
    "gen_env \<Rightarrow> int \<Rightarrow> real \<Rightarrow> int \<Rightarrow> int \<Rightarrow> nat \<Rightarrow> entry" where
  "day_entry env base multiplier days start_date day =
     (let current_date = start_date + int day;
          base_footfall = float_mul (of_int base) (fl multiplier);
          base_footfall1 =
            (if weekday current_date < 5 then float_mul base_footfall (fl 1.3)
             else float_mul base_footfall (fl 0.7));
          month_factor =
            float_add 1 (float_mul (float_div (real day) (of_int days)) (fl 0.2));
          base_footfall2 = float_mul base_footfall1 month_factor;
          week_pattern =
            float_mul
              (env_sin env
                 (float_div
                    (float_mul (float_mul 2 (fl pi)) (of_int (weekday current_date))) 7))
              (float_mul (of_int base) (fl 0.1));
          noise = draw_normal (env_draws env day);
          base_footfall3 =
            (if draw_random (env_draws env day) < fl 0.05
             then float_mul base_footfall2 (draw_uniform (env_draws env day))
             else base_footfall2);
          footfall = py_int (float_add (float_add base_footfall3 week_pattern) noise);
          footfall1 = max (py_int (float_mul (of_int base) (fl 0.2))) footfall
      in \<lparr>entry_ds = current_date, entry_y = footfall1\<rparr>)"

text \<open>The loop over \<^verbatim>\<open>range(days)\<close>, appending to \<^verbatim>\<open>data\<close>.\<close>

fun generate_rows ::
    "gen_env \<Rightarrow> int \<Rightarrow> real \<Rightarrow> int \<Rightarrow> int \<Rightarrow> nat list \<Rightarrow> entry list \<Rightarrow> entry list" where
  "generate_rows env base multiplier days start_date [] data = data"
| "generate_rows env base multiplier days start_date (day # rest) data =
     generate_rows env base multiplier days start_date rest
       (data @ [day_entry env base multiplier days start_date day])"

definition generate_transport_data ::
    "gen_env \<Rightarrow> string \<Rightarrow> string \<Rightarrow> int \<Rightarrow> py_error + entry list" where
  "generate_transport_data env location_name transport_type days =
     (let start_date = env_today env - days
      in case map_of BASE_FOOTFALL transport_type of
           None \<Rightarrow> Inl (KeyError transport_type)
         | Some base \<Rightarrow>
             let multiplier = dict_get LOCATION_MULTIPLIERS location_name 1.0
             in Inr (generate_rows env base multiplier days start_date
                       [0 ..< nat days] []))"

subsection \<open>Statistics of the series\<close>

text \<open>
  The five pandas reductions of the \<^verbatim>\<open>'y'\<close> column, on its list of values:
  \<^verbatim>\<open>mean()\<close>, \<^verbatim>\<open>median()\<close>, \<^verbatim>\<open>min()\<close>, \<^verbatim>\<open>max()\<close> and
  \<^verbatim>\<open>std()\<close>, whose default is the sample standard deviation (\<^verbatim>\<open>ddof=1\<close>): the
  squared deviations are divided by \<open>n - 1\<close>, and the result is NaN when there are fewer
  than two values. They are modelled by their mathematical definitions over the reals;
  the rounding inside the library is not modelled. A frame built from an empty list has
  no column \<^verbatim>\<open>'y'\<close>, and \<^verbatim>\<open>df['y']\<close> raises KeyError.
\<close>

record statistics =
  stat_mean :: real
  stat_median :: real
  stat_min :: int
  stat_max :: int
  stat_std :: py_float

definition series_mean :: "int list \<Rightarrow> real" where
  "series_mean ys = of_int (sum_list ys) / of_nat (length ys)"

definition series_median :: "int list \<Rightarrow> real" where
  "series_median ys =
     (let s = sort ys; n = length s
      in if odd n then of_int (s ! (n div 2))
         else (of_int (s ! (n div 2 - 1)) + of_int (s ! (n div 2))) / 2)"

definition series_std :: "int list \<Rightarrow> py_float" where
  "series_std ys =
     (let n = length ys; m = series_mean ys
      in if n < 2 then NaN
         else Float (sqrt (sum_list (map (\<lambda>v. (of_int v - m)\<^sup>2) ys) / of_nat (n - 1))))"

definition summarize :: "int list \<Rightarrow> py_error + statistics" where
  "summarize ys =
     (case ys of
        [] \<Rightarrow> Inl (KeyError ''y'')
      | v # vs \<Rightarrow>
          Inr \<lparr>stat_mean = series_mean ys,
               stat_median = series_median ys,
               stat_min = fold min vs v,
               stat_max = fold max vs v,
               stat_std = series_std ys\<rparr>)"

record generate_data_response =
  resp_success :: bool
  resp_location :: string
  resp_transport_type :: string
  resp_days :: int
  resp_records :: nat
  resp_statistics :: statistics
  resp_data :: "entry list"





section \<open>Prediction service: requests (src/main.py)\<close>

subsection \<open>The call to the data generator\<close>

text \<open>
  What the HTTP request of \<^verbatim>\<open>call_data_generator\<close> can come to: httpx raises
  \<^verbatim>\<open>RequestError\<close> (no connection, timeout), \<^verbatim>\<open>raise_for_status\<close> raises
  \<^verbatim>\<open>HTTPStatusError\<close> (with the status code and the text of the exception), or the
  response's JSON is returned. A \<open>generator\<close> gives the outcome of
  \<^verbatim>\<open>POST /api/generate/data\<close> for a location name, a transport type and a number
  of days.
\<close>

datatype 'a http_outcome = RequestError | HTTPStatusError nat string | Response 'a

type_synonym generator = "string \<Rightarrow> string \<Rightarrow> int \<Rightarrow> generate_data_response http_outcome"

definition call_data_generator :: "'a http_outcome \<Rightarrow> http_error + 'a" where
  "call_data_generator outcome =
     (case outcome of
        RequestError \<Rightarrow> Inl (HTTPException 503 ''Data generator service unavailable'')
      | HTTPStatusError code msg \<Rightarrow> Inl (HTTPException code msg)
      | Response json \<Rightarrow> Inr json)"

text \<open>\<^verbatim>\<open>get_location_data\<close> catches every exception and returns None.\<close>

definition get_location_data ::
    "generator \<Rightarrow> string \<Rightarrow> string \<Rightarrow> int \<Rightarrow> generate_data_response option" where
  "get_location_data gen location_name transport_type days =
     (case call_data_generator (gen location_name transport_type days) of
        Inr data \<Rightarrow> Some data
      | Inl e \<Rightarrow> None)"

subsection \<open>Prediction for one location\<close>

record location_prediction =
  lp_location :: string
  lp_transport_type :: string
  lp_current_footfall :: int
  lp_base_daily_footfall :: int
  lp_congestion_level :: string
  lp_statistics :: statistics
  lp_current_hour :: int

definition get_location_prediction ::
    "generator \<Rightarrow> int \<Rightarrow> string \<Rightarrow> http_error + location_prediction" where
  "get_location_prediction gen current_hour location_name =
     (case get_transport_type location_name of
        None \<Rightarrow> Inl (HTTPException 404 ''Location not found'')
      | Some transport_type \<Rightarrow>
          (case get_location_data gen location_name transport_type 90 of
             None \<Rightarrow> Inl (HTTPException 404 ''Data not available'')
           | Some data \<Rightarrow>
               if \<not> resp_success data
               then Inl (HTTPException 404 ''Data not available'')
               else
                 let base_footfall = stat_mean (resp_statistics data);
                     (current_footfall, congestion) =
                       estimate current_hour base_footfall transport_type
                 in Inr \<lparr>lp_location = location_name,
                         lp_transport_type = transport_type,
                         lp_current_footfall = current_footfall,
                         lp_base_daily_footfall = py_int base_footfall,
                         lp_congestion_level = congestion,
                         lp_statistics = resp_statistics data,
                         lp_current_hour = current_hour\<rparr>))"

subsection \<open>Prediction for an area\<close>

record component =
  comp_location :: string
  comp_type :: string
  comp_footfall :: int
  comp_congestion :: string

record area_prediction =
  ap_area :: string
  ap_overall_congestion :: string
  ap_congestion_score :: real
  ap_current_hour :: int
  ap_components :: "component list"

text \<open>
  The inner loop of \<^verbatim>\<open>get_area_prediction\<close> over the locations of one transport
  type, and the outer loop over the items of the area; both append to
  \<^verbatim>\<open>congestion_scores\<close> and \<^verbatim>\<open>components\<close>. The current footfall is the
  truncated float product, as in \<^verbatim>\<open>calculate_current_footfall\<close>.
\<close>

fun collect_locations ::
    "generator \<Rightarrow> real \<Rightarrow> string \<Rightarrow> string list \<Rightarrow> int list \<times> component list
      \<Rightarrow> int list \<times> component list" where
  "collect_locations gen multiplier transport_type [] acc = acc"
| "collect_locations gen multiplier transport_type (location # rest)
       (congestion_scores, components) =
     (case get_location_data gen location transport_type 90 of
        None \<Rightarrow>
          collect_locations gen multiplier transport_type rest
            (congestion_scores, components)
      | Some data \<Rightarrow>
          if resp_success data
          then
            let base_footfall = stat_mean (resp_statistics data);
                current_footfall = py_int (float_mul base_footfall (fl multiplier));
                congestion =
                  calculate_congestion_level current_footfall transport_type multiplier;
                score = level_score congestion
            in collect_locations gen multiplier transport_type rest
                 (congestion_scores @ [score],
                  components @
                    [\<lparr>comp_location = location, comp_type = transport_type,
                      comp_footfall = current_footfall, comp_congestion = congestion\<rparr>])
          else
            collect_locations gen multiplier transport_type rest
              (congestion_scores, components))"

fun collect_area ::
    "generator \<Rightarrow> real \<Rightarrow> (string \<times> string list) list \<Rightarrow> int list \<times> component list
      \<Rightarrow> int list \<times> component list" where
  "collect_area gen multiplier [] acc = acc"
| "collect_area gen multiplier ((transport_type, locations) # rest) acc =
     collect_area gen multiplier rest
       (collect_locations gen multiplier transport_type locations acc)"

text \<open>
  The body of \<^verbatim>\<open>get_area_prediction\<close> once the area's entry of
  \<^verbatim>\<open>AREA_MAPPING\<close> is in hand (lines 280 to 326). The mean of the scores and its
  rounding to two decimals are modelled over the reals.
\<close>

definition area_prediction_of ::
    "generator \<Rightarrow> int \<Rightarrow> string \<Rightarrow> (string \<times> string list) list
      \<Rightarrow> http_error + area_prediction" where
  "area_prediction_of gen current_hour area_name area_data =
     (let multiplier = dict_get HOUR_MULTIPLIERS current_hour 0.8;
          (congestion_scores, components) = collect_area gen multiplier area_data ([], [])
      in if congestion_scores = []
         then Inl (HTTPException 404 ''No data available for this area'')
         else
           let avg_score =
                 real_of_int (sum_list congestion_scores) /
                 real (length congestion_scores);
               overall_congestion =
                 (if 2.5 \<le> avg_score then ''High''
                  else if 1.5 \<le> avg_score then ''Medium''
                  else ''Low'')
           in Inr \<lparr>ap_area = area_name,
                   ap_overall_congestion = overall_congestion,
                   ap_congestion_score = py_round2 avg_score,
                   ap_current_hour = current_hour,
                   ap_components = components\<rparr>)"

definition get_area_prediction ::
    "generator \<Rightarrow> int \<Rightarrow> string \<Rightarrow> http_error + area_prediction" where
  "get_area_prediction gen current_hour area_name =
     (case map_of AREA_MAPPING area_name of
        None \<Rightarrow> Inl (HTTPException 404 ''Area not found'')
      | Some area_data \<Rightarrow> area_prediction_of gen current_hour area_name area_data)"

text \<open>
  The condition \<^verbatim>\<open>data and data.get("success")\<close> of the loops, and an area's entry
  with only the members that meet it.
\<close>

definition fetch_ok :: "generator \<Rightarrow> string \<Rightarrow> string \<Rightarrow> bool" where
  "fetch_ok gen transport_type location =
     (case get_location_data gen location transport_type 90 of
        None \<Rightarrow> False
      | Some data \<Rightarrow> resp_success data)"

definition surviving ::
    "generator \<Rightarrow> (string \<times> string list) list \<Rightarrow> (string \<times> string list) list" where
  "surviving gen area_data =
     map (\<lambda>(transport_type, locations).
            (transport_type, filter (fetch_ok gen transport_type) locations))
       area_data"

section \<open>Concrete inputs\<close>

definition response_with_mean ::
    "string \<Rightarrow> string \<Rightarrow> int \<Rightarrow> int \<Rightarrow> generate_data_response" where
  "response_with_mean location_name transport_type days v =
     \<lparr>resp_success = True, resp_location = location_name,
      resp_transport_type = transport_type, resp_days = days, resp_records = 0,
      resp_statistics =
        \<lparr>stat_mean = of_int v, stat_median = of_int v, stat_min = v, stat_max = v,
         stat_std = Float 0\<rparr>,
      resp_data = []\<rparr>"

text \<open>A generator that answers for the two members of the area Bandra.\<close>

definition gen_bandra :: generator where
  "gen_bandra location_name transport_type days =
     (if location_name = ''Bandra''
      then Response (response_with_mean location_name transport_type days 6000)
      else if location_name = ''Bandra Bus Stand''
      then Response (response_with_mean location_name transport_type days 1000)
      else RequestError)"

text \<open>A generator that is down for the railway station and answers for the bus stand.\<close>

definition gen_partial :: generator where
  "gen_partial location_name transport_type days =
     (if location_name = ''Bandra Bus Stand''
      then Response (response_with_mean location_name transport_type days 1000)
      else RequestError)"

text \<open>A generator that is down.\<close>

definition gen_down :: generator where
  "gen_down location_name transport_type days = RequestError"

definition bandra_members :: "(string \<times> string list) list" where
  "bandra_members =
     [(''metro'', []), (''railway'', [''Bandra'']),
      (''bus'', [''Bandra Bus Stand'']), (''signals'', [])]"

text \<open>
  An environment in which today is Tuesday 2024-01-02 (ordinal 738887, so that a window
  of one day is Monday 2024-01-01), every Gaussian draw is 0.75, no event fires, and the
  sine is the correctly rounded one.
\<close>

definition env_monday :: gen_env where
  "env_monday =
     \<lparr>env_today = 738887,
      env_draws = (\<lambda>day. \<lparr>draw_normal = 0.75, draw_random = 0.5, draw_uniform = 1.25\<rparr>),
      env_sin = (\<lambda>x. fl (sin x))\<rparr>"

text \<open>
  An environment in which today is Tuesday 2024-01-30 (ordinal 738915), so that day 1 of
  a window of 30 days is Monday 2024-01-01; every Gaussian draw is 0, no event fires,
  and the sine is the correctly rounded one.
\<close>

definition env_january :: gen_env where
  "env_january =
     \<lparr>env_today = 738915,
      env_draws = (\<lambda>day. \<lparr>draw_normal = 0, draw_random = 0.5, draw_uniform = 1.25\<rparr>),
      env_sin = (\<lambda>x. fl (sin x))\<rparr>"

section \<open>Rounding to a double\<close>

text \<open>
  Rounding is monotone, keeps the sign, and is computed from any exponent \<open>e\<close> with
  \<open>2 ^ e \<le> |x| < 2 ^ (e + 1)\<close>.
\<close>

lemma py_round_bounds: "\<lfloor>x\<rfloor> \<le> py_round x \<and> py_round x \<le> \<lfloor>x\<rfloor> + 1"
  by (simp add: py_round_def Let_def)

lemma py_round_of_int [simp]: "py_round (of_int n) = n"
  by (simp add: py_round_def Let_def)

lemma py_round_mono:
  assumes "x \<le> y"
  shows "py_round x \<le> py_round y"
proof (cases "\<lfloor>x\<rfloor> = \<lfloor>y\<rfloor>")
  case True
  with assms have "x - of_int \<lfloor>x\<rfloor> \<le> y - of_int \<lfloor>y\<rfloor>"
    by simp
  with True show ?thesis
    by (auto simp add: py_round_def Let_def)
next
  case False
  with assms have "\<lfloor>x\<rfloor> < \<lfloor>y\<rfloor>"
    by (simp add: floor_mono order.strict_iff_order)
  with py_round_bounds [of x] py_round_bounds [of y] show ?thesis
    by linarith
qed

lemma powr_powi: "(2::real) powr of_int k = 2 powi k"
  by (simp add: powr_real_of_int power_int_def power_one_over inverse_eq_divide)

lemma floor_log2_eq:
  assumes "2 powi e \<le> \<bar>x\<bar>" and "\<bar>x\<bar> < 2 powi (e + 1)"
  shows "\<lfloor>log 2 \<bar>x\<bar>\<rfloor> = e"
proof -
  have pos: "0 < \<bar>x\<bar>"
    using assms(1) by (smt (verit) zero_less_power_int)
  from assms show ?thesis
    using floor_log_eq_powr_iff [of "\<bar>x\<bar>" 2 e] pos powr_powi [of e] powr_powi [of "e + 1"]
    by (simp add: add.commute)
qed

lemma floor_log2_bounds:
  assumes "x \<noteq> 0"
  shows "2 powi \<lfloor>log 2 \<bar>x\<bar>\<rfloor> \<le> \<bar>x\<bar>" and "\<bar>x\<bar> < 2 powi (\<lfloor>log 2 \<bar>x\<bar>\<rfloor> + 1)"
proof -
  have pos: "0 < \<bar>x\<bar>"
    using assms by simp
  define k where "k = \<lfloor>log 2 \<bar>x\<bar>\<rfloor>"
  have "2 powr of_int k \<le> \<bar>x\<bar> \<and> \<bar>x\<bar> < 2 powr (of_int k + 1)"
    using floor_log_eq_powr_iff [of "\<bar>x\<bar>" 2 k] pos by (simp add: k_def)
  then have "2 powi k \<le> \<bar>x\<bar> \<and> \<bar>x\<bar> < 2 powi (k + 1)"
    using powr_powi [of k] powr_powi [of "k + 1"] by (simp add: add.commute)
  then show "2 powi \<lfloor>log 2 \<bar>x\<bar>\<rfloor> \<le> \<bar>x\<bar>" and "\<bar>x\<bar> < 2 powi (\<lfloor>log 2 \<bar>x\<bar>\<rfloor> + 1)"
    by (simp_all add: k_def)
qed

lemma fl_eval:
  assumes "2 powi e \<le> \<bar>x\<bar>" and "\<bar>x\<bar> < 2 powi (e + 1)" and "- 1022 \<le> e"
    and "py_round (\<bar>x\<bar> / 2 powi (e - 52)) = n"
    and "y = sgn x * of_int n * 2 powi (e - 52)"
  shows "fl x = y"
proof -
  have "x \<noteq> 0"
    using assms(1) by (smt (verit) zero_less_power_int)
  moreover have "float_exponent x = e"
    using floor_log2_eq [OF assms(1,2)] assms(3) by (simp add: float_exponent_def)
  ultimately show ?thesis
    using assms(4,5) by (simp add: fl_def Let_def)
qed

lemma fl_0 [simp]: "fl 0 = 0"
  by (simp add: fl_def)

lemma float_exponent_minus [simp]: "float_exponent (- x) = float_exponent x"
  by (simp add: float_exponent_def)

lemma fl_minus: "fl (- x) = - fl x"
  by (simp add: fl_def Let_def sgn_minus)

lemma fl_sgn_mag: "x \<noteq> 0 \<Longrightarrow> fl x = sgn x * fl_mag x"
  by (simp add: fl_def fl_mag_def Let_def)

lemma float_exponent_upper:
  assumes "x \<noteq> 0"
  shows "\<bar>x\<bar> < 2 powi (float_exponent x + 1)"
proof -
  have "\<lfloor>log 2 \<bar>x\<bar>\<rfloor> + 1 \<le> float_exponent x + 1"
    by (simp add: float_exponent_def)
  then have "(2::real) powi (\<lfloor>log 2 \<bar>x\<bar>\<rfloor> + 1) \<le> 2 powi (float_exponent x + 1)"
    by (intro power_int_increasing) simp_all
  with floor_log2_bounds(2) [OF assms] show ?thesis
    by linarith
qed

lemma float_exponent_lower:
  assumes "x \<noteq> 0" and "- 1022 < float_exponent x"
  shows "2 powi float_exponent x \<le> \<bar>x\<bar>"
proof -
  from assms(2) have "float_exponent x = \<lfloor>log 2 \<bar>x\<bar>\<rfloor>"
    by (simp add: float_exponent_def max_def split: if_splits)
  with floor_log2_bounds(1) [OF assms(1)] show ?thesis
    by simp
qed

lemma float_exponent_mono:
  assumes "0 < x" and "x \<le> y"
  shows "float_exponent x \<le> float_exponent y"
proof -
  from assms have "log 2 \<bar>x\<bar> \<le> log 2 \<bar>y\<bar>"
    by simp
  then have "\<lfloor>log 2 \<bar>x\<bar>\<rfloor> \<le> \<lfloor>log 2 \<bar>y\<bar>\<rfloor>"
    by (rule floor_mono)
  then show ?thesis
    unfolding float_exponent_def by (intro max.mono order_refl)
qed

lemma fl_mag_nonneg: "0 \<le> fl_mag x"
proof -
  have "0 \<le> \<bar>x\<bar> / 2 powi (float_exponent x - 52)"
    by simp
  then have "py_round 0 \<le> py_round (\<bar>x\<bar> / 2 powi (float_exponent x - 52))"
    by (rule py_round_mono)
  then show ?thesis
    by (simp add: fl_mag_def py_round_def)
qed

lemma fl_mag_upper:
  assumes "x \<noteq> 0"
  shows "fl_mag x \<le> 2 powi (float_exponent x + 1)"
proof -
  define u :: real where "u = 2 powi (float_exponent x - 52)"
  have u: "0 < u"
    by (simp add: u_def)
  have split: "2 powi (float_exponent x + 1) = 2 ^ 53 * u"
    unfolding u_def
    using power_int_add [of "2::real" 53 "float_exponent x - 52"] by (simp add: add.commute)
  from float_exponent_upper [OF assms] have "\<bar>x\<bar> < 2 ^ 53 * u"
    unfolding split .
  then have "\<bar>x\<bar> / u \<le> 2 ^ 53"
    using u by (simp add: field_simps)
  then have "py_round (\<bar>x\<bar> / u) \<le> py_round (of_int (2 ^ 53))"
    using py_round_mono by simp
  then have "py_round (\<bar>x\<bar> / u) \<le> 2 ^ 53"
    by (simp only: py_round_of_int)
  then have "real_of_int (py_round (\<bar>x\<bar> / u)) \<le> 2 ^ 53"
    by (metis of_int_le_iff of_int_numeral of_int_power)
  then show ?thesis
    using u by (simp add: fl_mag_def u_def [symmetric] split)
qed

lemma fl_mag_lower:
  assumes "x \<noteq> 0" and "- 1022 < float_exponent x"
  shows "2 powi float_exponent x \<le> fl_mag x"
proof -
  define u :: real where "u = 2 powi (float_exponent x - 52)"
  have u: "0 < u"
    by (simp add: u_def)
  have split: "2 powi float_exponent x = 2 ^ 52 * u"
    unfolding u_def
    using power_int_add [of "2::real" 52 "float_exponent x - 52"] by simp
  from float_exponent_lower [OF assms] have "2 ^ 52 * u \<le> \<bar>x\<bar>"
    unfolding split .
  then have "2 ^ 52 \<le> \<bar>x\<bar> / u"
    using u by (simp add: field_simps)
  then have "py_round (of_int (2 ^ 52)) \<le> py_round (\<bar>x\<bar> / u)"
    using py_round_mono by simp
  then have "2 ^ 52 \<le> py_round (\<bar>x\<bar> / u)"
    by (simp only: py_round_of_int)
  then have "2 ^ 52 \<le> real_of_int (py_round (\<bar>x\<bar> / u))"
    by (metis of_int_le_iff of_int_numeral of_int_power)
  then show ?thesis
    using u by (simp add: fl_mag_def u_def [symmetric] split)
qed

lemma fl_mag_mono:
  assumes "0 < x" and "x \<le> y"
  shows "fl_mag x \<le> fl_mag y"
proof (cases "float_exponent x = float_exponent y")
  case True
  define u :: real where "u = 2 powi (float_exponent y - 52)"
  have u: "0 < u"
    by (simp add: u_def)
  from assms u have "\<bar>x\<bar> / u \<le> \<bar>y\<bar> / u"
    by (simp add: divide_right_mono)
  then have "py_round (\<bar>x\<bar> / u) \<le> py_round (\<bar>y\<bar> / u)"
    by (rule py_round_mono)
  with u show ?thesis
    by (simp add: fl_mag_def True u_def [symmetric])
next
  case False
  with float_exponent_mono [OF assms] have lt: "float_exponent x < float_exponent y"
    by simp
  have "- 1022 \<le> float_exponent x"
    by (simp add: float_exponent_def)
  with lt have big: "- 1022 < float_exponent y"
    by simp
  from assms have nz: "x \<noteq> 0" "y \<noteq> 0"
    by simp_all
  have "fl_mag x \<le> 2 powi (float_exponent x + 1)"
    by (rule fl_mag_upper [OF nz(1)])
  also from lt have "\<dots> \<le> 2 powi float_exponent y"
    by (intro power_int_increasing) simp_all
  also have "\<dots> \<le> fl_mag y"
    by (rule fl_mag_lower [OF nz(2) big])
  finally show ?thesis .
qed

lemma fl_nonneg: "0 \<le> x \<Longrightarrow> 0 \<le> fl x"
  by (cases "x = 0") (simp_all add: fl_sgn_mag fl_mag_nonneg)

lemma fl_nonpos: "x \<le> 0 \<Longrightarrow> fl x \<le> 0"
  using fl_nonneg [of "- x"] by (simp add: fl_minus)

lemma fl_mono_pos:
  assumes "0 < x" and "x \<le> y"
  shows "fl x \<le> fl y"
  using assms fl_mag_mono [OF assms] by (simp add: fl_sgn_mag)

lemma fl_mono:
  assumes "x \<le> y"
  shows "fl x \<le> fl y"
proof -
  consider "0 < x" | "x \<le> 0" "0 \<le> y" | "y < 0"
    by linarith
  then show ?thesis
  proof cases
    case 1
    then show ?thesis
      using assms by (rule fl_mono_pos)
  next
    case 2
    then show ?thesis
      using fl_nonpos [of x] fl_nonneg [of y] by linarith
  next
    case 3
    with assms have "0 < - y" "- y \<le> - x"
      by simp_all
    then have "fl (- y) \<le> fl (- x)"
      by (rule fl_mono_pos)
    then show ?thesis
      by (simp add: fl_minus)
  qed
qed

lemma fl_pos_imp: "0 < fl x \<Longrightarrow> 0 < x"
  using fl_nonpos [of x] by linarith

text \<open>The doubles of the literals of the source.\<close>

lemma fl_literals:
  "fl 1 = 1"
  "fl 1.5 = 1.5"
  "fl 0.8 = 3602879701896397 / 2 ^ 52"
  "fl 0.7 = 3152519739159347 / 2 ^ 52"
  "fl 1.2 = 5404319552844595 / 2 ^ 52"
  "fl 1.3 = 5854679515581645 / 2 ^ 52"
  "fl 0.2 = 3602879701896397 / 2 ^ 54"
  "fl 0.1 = 3602879701896397 / 2 ^ 55"
  "fl 0.05 = 3602879701896397 / 2 ^ 56"
proof -
  show "fl 1 = 1"
    by (rule fl_eval [where e = 0 and n = "2 ^ 52"]) (simp_all add: py_round_def Let_def)
  show "fl 1.5 = 1.5"
    by (rule fl_eval [where e = 0 and n = "3 * 2 ^ 51"])
      (simp_all add: py_round_def Let_def)
  show "fl 0.8 = 3602879701896397 / 2 ^ 52"
    by (rule fl_eval [where e = "- 1" and n = 7205759403792794])
      (simp_all add: py_round_def Let_def)
  show "fl 0.7 = 3152519739159347 / 2 ^ 52"
    by (rule fl_eval [where e = "- 1" and n = 6305039478318694])
      (simp_all add: py_round_def Let_def)
  show "fl 1.2 = 5404319552844595 / 2 ^ 52"
    by (rule fl_eval [where e = 0 and n = 5404319552844595])
      (simp_all add: py_round_def Let_def)
  show "fl 1.3 = 5854679515581645 / 2 ^ 52"
    by (rule fl_eval [where e = 0 and n = 5854679515581645])
      (simp_all add: py_round_def Let_def)
  show "fl 0.2 = 3602879701896397 / 2 ^ 54"
    by (rule fl_eval [where e = "- 3" and n = 7205759403792794])
      (simp_all add: py_round_def Let_def)
  show "fl 0.1 = 3602879701896397 / 2 ^ 55"
    by (rule fl_eval [where e = "- 4" and n = 7205759403792794])
      (simp_all add: py_round_def Let_def)
  show "fl 0.05 = 3602879701896397 / 2 ^ 56"
    by (rule fl_eval [where e = "- 5" and n = 7205759403792794])
      (simp_all add: py_round_def Let_def)
qed

text \<open>
  The doubles that the concrete inputs below run through, with every number written as
  the simplifier writes it.
\<close>

lemma double_values:
  "fl 1 = 1"
  "fl (6 / 5) = (5404319552844595 / 4503599627370496)"
  "fl (13 / 10) = (5854679515581645 / 4503599627370496)"
  "fl (1 / 5) = (3602879701896397 / 18014398509481984)"
  "fl (1 / 10) = (3602879701896397 / 36028797018963968)"
  "fl (1 / 20) = (3602879701896397 / 72057594037927936)"
  "fl (3 / 2) = (3 / 2)"
  "fl 9000 = 9000"
  "fl 1500 = 1500"
  "fl (2251799813685248125 / 2251799813685248) = 1000"
  "fl (450359962737049625 / 281474976710656) = 1600"
  "fl (1351079888211148875 / 2251799813685248) = 600"
  "fl (450359962737049625 / 562949953421312) = 800"
  "fl 5000 = 5000"
  "fl (3659174697238528125 / 562949953421312) = 6500"
  "fl 6500 = 6500"
  "fl (2251799813685248125 / 4503599627370496) = 500"
  "fl (26003 / 4) = (26003 / 4)"
  "fl (3377699720527871875 / 562949953421312) = 6000"
  "fl (2195504818343116875 / 281474976710656) = 7800"
  "fl (1 / 30) = (4803839602528529 / 144115188075855872)"
  "fl (17307656195116092815677594810013 / 2596148429267413814265248164610048) = (7686143364045647 / 1152921504606846976)"
  "fl (1160607647970892623 / 1152921504606846976) = (4533623624886299 / 4503599627370496)"
  "fl (4420283034264141525 / 562949953421312) = (8633365301297151 / 1099511627776)"
  "fl (8633365301297151 / 1099511627776) = (8633365301297151 / 1099511627776)"
proof -
  show "fl 1 = 1"
    by (rule fl_eval [where e = 0 and n = 4503599627370496])
      (simp_all add: py_round_def Let_def)
  show "fl (6 / 5) = (5404319552844595 / 4503599627370496)"
    by (rule fl_eval [where e = 0 and n = 5404319552844595])
      (simp_all add: py_round_def Let_def)
  show "fl (13 / 10) = (5854679515581645 / 4503599627370496)"
    by (rule fl_eval [where e = 0 and n = 5854679515581645])
      (simp_all add: py_round_def Let_def)
  show "fl (1 / 5) = (3602879701896397 / 18014398509481984)"
    by (rule fl_eval [where e = "- 3" and n = 7205759403792794])
      (simp_all add: py_round_def Let_def)
  show "fl (1 / 10) = (3602879701896397 / 36028797018963968)"
    by (rule fl_eval [where e = "- 4" and n = 7205759403792794])
      (simp_all add: py_round_def Let_def)
  show "fl (1 / 20) = (3602879701896397 / 72057594037927936)"
    by (rule fl_eval [where e = "- 5" and n = 7205759403792794])
      (simp_all add: py_round_def Let_def)
  show "fl (3 / 2) = (3 / 2)"
    by (rule fl_eval [where e = 0 and n = 6755399441055744])
      (simp_all add: py_round_def Let_def)
  show "fl 9000 = 9000"
    by (rule fl_eval [where e = 13 and n = 4947802324992000])
      (simp_all add: py_round_def Let_def)
  show "fl 1500 = 1500"
    by (rule fl_eval [where e = 10 and n = 6597069766656000])
      (simp_all add: py_round_def Let_def)
  show "fl (2251799813685248125 / 2251799813685248) = 1000"
    by (rule fl_eval [where e = 9 and n = 8796093022208000])
      (simp_all add: py_round_def Let_def)
  show "fl (450359962737049625 / 281474976710656) = 1600"
    by (rule fl_eval [where e = 10 and n = 7036874417766400])
      (simp_all add: py_round_def Let_def)
  show "fl (1351079888211148875 / 2251799813685248) = 600"
    by (rule fl_eval [where e = 9 and n = 5277655813324800])
      (simp_all add: py_round_def Let_def)
  show "fl (450359962737049625 / 562949953421312) = 800"
    by (rule fl_eval [where e = 9 and n = 7036874417766400])
      (simp_all add: py_round_def Let_def)
  show "fl 5000 = 5000"
    by (rule fl_eval [where e = 12 and n = 5497558138880000])
      (simp_all add: py_round_def Let_def)
  show "fl (3659174697238528125 / 562949953421312) = 6500"
    by (rule fl_eval [where e = 12 and n = 7146825580544000])
      (simp_all add: py_round_def Let_def)
  show "fl 6500 = 6500"
    by (rule fl_eval [where e = 12 and n = 7146825580544000])
      (simp_all add: py_round_def Let_def)
  show "fl (2251799813685248125 / 4503599627370496) = 500"
    by (rule fl_eval [where e = 8 and n = 8796093022208000])
      (simp_all add: py_round_def Let_def)
  show "fl (26003 / 4) = (26003 / 4)"
    by (rule fl_eval [where e = 12 and n = 7147650214264832])
      (simp_all add: py_round_def Let_def)
  show "fl (3377699720527871875 / 562949953421312) = 6000"
    by (rule fl_eval [where e = 12 and n = 6597069766656000])
      (simp_all add: py_round_def Let_def)
  show "fl (2195504818343116875 / 281474976710656) = 7800"
    by (rule fl_eval [where e = 12 and n = 8576190696652800])
      (simp_all add: py_round_def Let_def)
  show "fl (1 / 30) = (4803839602528529 / 144115188075855872)"
    by (rule fl_eval [where e = "- 5" and n = 4803839602528529])
      (simp_all add: py_round_def Let_def)
  show "fl (17307656195116092815677594810013 / 2596148429267413814265248164610048) = (7686143364045647 / 1152921504606846976)"
    by (rule fl_eval [where e = "- 8" and n = 7686143364045647])
      (simp_all add: py_round_def Let_def)
  show "fl (1160607647970892623 / 1152921504606846976) = (4533623624886299 / 4503599627370496)"
    by (rule fl_eval [where e = 0 and n = 4533623624886299])
      (simp_all add: py_round_def Let_def)
  show "fl (4420283034264141525 / 562949953421312) = (8633365301297151 / 1099511627776)"
    by (rule fl_eval [where e = 12 and n = 8633365301297151])
      (simp_all add: py_round_def Let_def)
  show "fl (8633365301297151 / 1099511627776) = (8633365301297151 / 1099511627776)"
    by (rule fl_eval [where e = 12 and n = 8633365301297151])
      (simp_all add: py_round_def Let_def)
qed


section \<open>The congestion estimator\<close>

lemma hour_in_table:
  assumes "0 \<le> h" and "h \<le> 23"
  shows "map_of HOUR_MULTIPLIERS h = Some (snd (HOUR_MULTIPLIERS ! nat h))"
proof -
  from assms
  have "h \<in> {0, 1, 2, 3, 4, 5, 6, 7, 8, 9, 10, 11, 12, 13, 14, 15, 16, 17, 18, 19, 20,
              21, 22, 23}"
    by (simp; arith)
  then show ?thesis
    by (elim insertE emptyE) (simp_all add: HOUR_MULTIPLIERS_def)
qed

lemma hour_out_of_table:
  "\<not> (0 \<le> h \<and> h \<le> 23) \<Longrightarrow> map_of HOUR_MULTIPLIERS h = None"
  by (auto simp add: HOUR_MULTIPLIERS_def)

lemma hour_multiplier_get:
  "dict_get HOUR_MULTIPLIERS h 0.8 =
     (if 0 \<le> h \<and> h \<le> 23 then snd (HOUR_MULTIPLIERS ! nat h) else 0.8)"
  by (simp add: dict_get_def hour_in_table hour_out_of_table)

lemma transport_factor_pos: "0 < dict_get TRANSPORT_MULTIPLIERS tt (1.0::real)"
  by (simp add: dict_get_def TRANSPORT_MULTIPLIERS_def)

lemma py_int_mono: "x \<le> y \<Longrightarrow> py_int x \<le> py_int y"
  unfolding py_int_def
  by (auto intro: floor_mono ceiling_mono)
     (smt (verit) ceiling_le_zero floor_mono zero_le_floor)+

lemma py_int_pos_imp: "0 < py_int x \<Longrightarrow> 0 < x"
  by (cases "0 \<le> x") (auto simp: py_int_def less_ceiling_iff)

lemma level_score_cases:
  "level_score (calculate_congestion_level f tt m) =
     (if 1.2 < m \<and> 5000 < of_int f * dict_get TRANSPORT_MULTIPLIERS tt 1.0 then 3
      else if 0.9 < m \<and> 3000 < of_int f * dict_get TRANSPORT_MULTIPLIERS tt 1.0 then 2
      else 1)"
  by (simp add: level_score_def calculate_congestion_level_def Let_def dict_get_def)

text \<open>
  \<^verbatim>\<open>calculate_congestion_level\<close> is modelled with the literals and an exact product.
  The program compares doubles: the double of the hour multiplier with the doubles of
  1.2 and 0.9, and the float product of the footfall and the transport factor with 5000
  and 3000. The next lemmas show that every such comparison has the same outcome: for
  each transport factor and each threshold there is a footfall \<open>k\<close> with both products
  of \<open>k\<close> at most the threshold and both products of \<open>k + 1\<close> above it.
\<close>

lemma float_threshold:
  fixes f k :: int and c t T :: real
  assumes c: "0 \<le> c" and t: "0 < t"
    and k: "fl (of_int k) = of_int k" and k1: "fl (of_int (k + 1)) = of_int (k + 1)"
    and lo: "fl (of_int k * c) \<le> T" and hi: "T < fl (of_int (k + 1) * c)"
    and elo: "of_int k * t \<le> T" and ehi: "T < of_int (k + 1) * t"
  shows "(T < float_mul (fl (of_int f)) c) = (T < of_int f * t)"
proof (cases "f \<le> k")
  case True
  then have "fl (of_int f) \<le> fl (of_int k)"
    by (intro fl_mono) simp
  then have "fl (of_int f) * c \<le> of_int k * c"
    using c k by (simp add: mult_right_mono)
  then have "fl (fl (of_int f) * c) \<le> fl (of_int k * c)"
    by (rule fl_mono)
  with lo have "\<not> T < float_mul (fl (of_int f)) c"
    by (simp add: float_mul_def)
  moreover from True t have "of_int f * t \<le> of_int k * t"
    by (simp add: mult_right_mono)
  with elo have "\<not> T < of_int f * t"
    by simp
  ultimately show ?thesis
    by simp
next
  case False
  then have le: "k + 1 \<le> f"
    by simp
  then have "fl (of_int (k + 1)) \<le> fl (of_int f)"
    by (intro fl_mono) (simp only: of_int_le_iff)
  then have "of_int (k + 1) * c \<le> fl (of_int f) * c"
    using c k1 by (simp add: mult_right_mono)
  then have "fl (of_int (k + 1) * c) \<le> fl (fl (of_int f) * c)"
    by (rule fl_mono)
  with hi have "T < float_mul (fl (of_int f)) c"
    by (simp add: float_mul_def)
  moreover from le have "real_of_int (k + 1) \<le> of_int f"
    by (simp only: of_int_le_iff)
  with t have "of_int (k + 1) * t \<le> of_int f * t"
    by (simp add: mult_right_mono)
  with ehi have "T < of_int f * t"
    by simp
  ultimately show ?thesis
    by simp
qed

lemma threshold_values:
  "fl 1 = 1"
  "fl 5000 = 5000"
  "fl 5001 = 5001"
  "fl 3000 = 3000"
  "fl 3001 = 3001"
  "fl (13 / 10) = (5854679515581645 / 4503599627370496)"
  "fl 3846 = 3846"
  "fl (11258548708463503335 / 2251799813685248) = (5497338236554445 / 1099511627776)"
  "fl 3847 = 3847"
  "fl (22522952096442588315 / 4503599627370496) = (2749383800835277 / 549755813888)"
  "fl 2307 = 2307"
  "fl (13506745642446855015 / 4503599627370496) = (6595090645726003 / 2199023255552)"
  "fl 2308 = 2308"
  "fl (3378150080490609165 / 1125899906842624) = (6597949375958221 / 2199023255552)"
  "fl (4 / 5) = (3602879701896397 / 4503599627370496)"
  "fl 6250 = 6250"
  "fl (11258999068426240625 / 2251799813685248) = 5000"
  "fl 6251 = 6251"
  "fl (22521601016554377647 / 4503599627370496) = (5498437748182221 / 1099511627776)"
  "fl 3750 = 3750"
  "fl (6755399441055744375 / 2251799813685248) = 3000"
  "fl 3751 = 3751"
  "fl (13514401761813385147 / 4503599627370496) = (3299414492630221 / 1099511627776)"
  "fl (6 / 5) = (5404319552844595 / 4503599627370496)"
  "fl 4166 = 4166"
  "fl (11257197628575291385 / 2251799813685248) = (5496678529577779 / 1099511627776)"
  "fl 4167 = 4167"
  "fl (22519799576703427365 / 4503599627370496) = (2748998971765555 / 549755813888)"
  "fl 2500 = 2500"
  "fl (3377699720527871875 / 1125899906842624) = 3000"
  "fl 2501 = 2501"
  "fl (13516203201664332095 / 4503599627370496) = (3299854297281331 / 1099511627776)"
  "fl (1 / 5) = (3602879701896397 / 18014398509481984)"
  "fl (3 / 10) = (5404319552844595 / 18014398509481984)"
  "fl (2 / 5) = (3602879701896397 / 9007199254740992)"
  "fl (1 / 2) = (1 / 2)"
  "fl (7 / 10) = (3152519739159347 / 4503599627370496)"
  "fl (9 / 10) = (8106479329266893 / 9007199254740992)"
  "fl (7 / 5) = (3152519739159347 / 2251799813685248)"
  "fl (3 / 2) = (3 / 2)"
proof -
  show "fl 1 = 1"
    by (rule fl_eval [where e = 0 and n = 4503599627370496])
      (simp_all add: py_round_def Let_def)
  show "fl 5000 = 5000"
    by (rule fl_eval [where e = 12 and n = 5497558138880000])
      (simp_all add: py_round_def Let_def)
  show "fl 5001 = 5001"
    by (rule fl_eval [where e = 12 and n = 5498657650507776])
      (simp_all add: py_round_def Let_def)
  show "fl 3000 = 3000"
    by (rule fl_eval [where e = 11 and n = 6597069766656000])
      (simp_all add: py_round_def Let_def)
  show "fl 3001 = 3001"
    by (rule fl_eval [where e = 11 and n = 6599268789911552])
      (simp_all add: py_round_def Let_def)
  show "fl (13 / 10) = (5854679515581645 / 4503599627370496)"
    by (rule fl_eval [where e = 0 and n = 5854679515581645])
      (simp_all add: py_round_def Let_def)
  show "fl 3846 = 3846"
    by (rule fl_eval [where e = 11 and n = 8457443440852992])
      (simp_all add: py_round_def Let_def)
  show "fl (11258548708463503335 / 2251799813685248) = (5497338236554445 / 1099511627776)"
    by (rule fl_eval [where e = 12 and n = 5497338236554445])
      (simp_all add: py_round_def Let_def)
  show "fl 3847 = 3847"
    by (rule fl_eval [where e = 11 and n = 8459642464108544])
      (simp_all add: py_round_def Let_def)
  show "fl (22522952096442588315 / 4503599627370496) = (2749383800835277 / 549755813888)"
    by (rule fl_eval [where e = 12 and n = 5498767601670554])
      (simp_all add: py_round_def Let_def)
  show "fl 2307 = 2307"
    by (rule fl_eval [where e = 11 and n = 5073146650558464])
      (simp_all add: py_round_def Let_def)
  show "fl (13506745642446855015 / 4503599627370496) = (6595090645726003 / 2199023255552)"
    by (rule fl_eval [where e = 11 and n = 6595090645726003])
      (simp_all add: py_round_def Let_def)
  show "fl 2308 = 2308"
    by (rule fl_eval [where e = 11 and n = 5075345673814016])
      (simp_all add: py_round_def Let_def)
  show "fl (3378150080490609165 / 1125899906842624) = (6597949375958221 / 2199023255552)"
    by (rule fl_eval [where e = 11 and n = 6597949375958221])
      (simp_all add: py_round_def Let_def)
  show "fl (4 / 5) = (3602879701896397 / 4503599627370496)"
    by (rule fl_eval [where e = "- 1" and n = 7205759403792794])
      (simp_all add: py_round_def Let_def)
  show "fl 6250 = 6250"
    by (rule fl_eval [where e = 12 and n = 6871947673600000])
      (simp_all add: py_round_def Let_def)
  show "fl (11258999068426240625 / 2251799813685248) = 5000"
    by (rule fl_eval [where e = 12 and n = 5497558138880000])
      (simp_all add: py_round_def Let_def)
  show "fl 6251 = 6251"
    by (rule fl_eval [where e = 12 and n = 6873047185227776])
      (simp_all add: py_round_def Let_def)
  show "fl (22521601016554377647 / 4503599627370496) = (5498437748182221 / 1099511627776)"
    by (rule fl_eval [where e = 12 and n = 5498437748182221])
      (simp_all add: py_round_def Let_def)
  show "fl 3750 = 3750"
    by (rule fl_eval [where e = 11 and n = 8246337208320000])
      (simp_all add: py_round_def Let_def)
  show "fl (6755399441055744375 / 2251799813685248) = 3000"
    by (rule fl_eval [where e = 11 and n = 6597069766656000])
      (simp_all add: py_round_def Let_def)
  show "fl 3751 = 3751"
    by (rule fl_eval [where e = 11 and n = 8248536231575552])
      (simp_all add: py_round_def Let_def)
  show "fl (13514401761813385147 / 4503599627370496) = (3299414492630221 / 1099511627776)"
    by (rule fl_eval [where e = 11 and n = 6598828985260442])
      (simp_all add: py_round_def Let_def)
  show "fl (6 / 5) = (5404319552844595 / 4503599627370496)"
    by (rule fl_eval [where e = 0 and n = 5404319552844595])
      (simp_all add: py_round_def Let_def)
  show "fl 4166 = 4166"
    by (rule fl_eval [where e = 12 and n = 4580565441314816])
      (simp_all add: py_round_def Let_def)
  show "fl (11257197628575291385 / 2251799813685248) = (5496678529577779 / 1099511627776)"
    by (rule fl_eval [where e = 12 and n = 5496678529577779])
      (simp_all add: py_round_def Let_def)
  show "fl 4167 = 4167"
    by (rule fl_eval [where e = 12 and n = 4581664952942592])
      (simp_all add: py_round_def Let_def)
  show "fl (22519799576703427365 / 4503599627370496) = (2748998971765555 / 549755813888)"
    by (rule fl_eval [where e = 12 and n = 5497997943531110])
      (simp_all add: py_round_def Let_def)
  show "fl 2500 = 2500"
    by (rule fl_eval [where e = 11 and n = 5497558138880000])
      (simp_all add: py_round_def Let_def)
  show "fl (3377699720527871875 / 1125899906842624) = 3000"
    by (rule fl_eval [where e = 11 and n = 6597069766656000])
      (simp_all add: py_round_def Let_def)
  show "fl 2501 = 2501"
    by (rule fl_eval [where e = 11 and n = 5499757162135552])
      (simp_all add: py_round_def Let_def)
  show "fl (13516203201664332095 / 4503599627370496) = (3299854297281331 / 1099511627776)"
    by (rule fl_eval [where e = 11 and n = 6599708594562662])
      (simp_all add: py_round_def Let_def)
  show "fl (1 / 5) = (3602879701896397 / 18014398509481984)"
    by (rule fl_eval [where e = "- 3" and n = 7205759403792794])
      (simp_all add: py_round_def Let_def)
  show "fl (3 / 10) = (5404319552844595 / 18014398509481984)"
    by (rule fl_eval [where e = "- 2" and n = 5404319552844595])
      (simp_all add: py_round_def Let_def)
  show "fl (2 / 5) = (3602879701896397 / 9007199254740992)"
    by (rule fl_eval [where e = "- 2" and n = 7205759403792794])
      (simp_all add: py_round_def Let_def)
  show "fl (1 / 2) = (1 / 2)"
    by (rule fl_eval [where e = "- 1" and n = 4503599627370496])
      (simp_all add: py_round_def Let_def)
  show "fl (7 / 10) = (3152519739159347 / 4503599627370496)"
    by (rule fl_eval [where e = "- 1" and n = 6305039478318694])
      (simp_all add: py_round_def Let_def)
  show "fl (9 / 10) = (8106479329266893 / 9007199254740992)"
    by (rule fl_eval [where e = "- 1" and n = 8106479329266893])
      (simp_all add: py_round_def Let_def)
  show "fl (7 / 5) = (3152519739159347 / 2251799813685248)"
    by (rule fl_eval [where e = 0 and n = 6305039478318694])
      (simp_all add: py_round_def Let_def)
  show "fl (3 / 2) = (3 / 2)"
    by (rule fl_eval [where e = 0 and n = 6755399441055744])
      (simp_all add: py_round_def Let_def)
qed

lemma transport_factor_cases:
  "dict_get TRANSPORT_MULTIPLIERS tt 1.0 \<in> {1, 1.3, 0.8, 1.2 :: real}"
  by (simp add: dict_get_def TRANSPORT_MULTIPLIERS_def)

lemma adjusted_footfall_comparisons:
  "(5000 < float_mul (fl (of_int f)) (fl (dict_get TRANSPORT_MULTIPLIERS tt 1.0)))
     = (5000 < of_int f * dict_get TRANSPORT_MULTIPLIERS tt 1.0)"
  "(3000 < float_mul (fl (of_int f)) (fl (dict_get TRANSPORT_MULTIPLIERS tt 1.0)))
     = (3000 < of_int f * dict_get TRANSPORT_MULTIPLIERS tt 1.0)"
proof -
  have 1: "(5000 < float_mul (fl (of_int f)) (fl 1)) = (5000 < of_int f * (1::real))"
    by (rule float_threshold [where k = 5000]) (simp_all add: threshold_values)
  have 2: "(3000 < float_mul (fl (of_int f)) (fl 1)) = (3000 < of_int f * (1::real))"
    by (rule float_threshold [where k = 3000]) (simp_all add: threshold_values)
  have 3: "(5000 < float_mul (fl (of_int f)) (fl 1.3)) = (5000 < of_int f * (1.3::real))"
    by (rule float_threshold [where k = 3846]) (simp_all add: threshold_values)
  have 4: "(3000 < float_mul (fl (of_int f)) (fl 1.3)) = (3000 < of_int f * (1.3::real))"
    by (rule float_threshold [where k = 2307]) (simp_all add: threshold_values)
  have 5: "(5000 < float_mul (fl (of_int f)) (fl 0.8)) = (5000 < of_int f * (0.8::real))"
    by (rule float_threshold [where k = 6250]) (simp_all add: threshold_values)
  have 6: "(3000 < float_mul (fl (of_int f)) (fl 0.8)) = (3000 < of_int f * (0.8::real))"
    by (rule float_threshold [where k = 3750]) (simp_all add: threshold_values)
  have 7: "(5000 < float_mul (fl (of_int f)) (fl 1.2)) = (5000 < of_int f * (1.2::real))"
    by (rule float_threshold [where k = 4166]) (simp_all add: threshold_values)
  have 8: "(3000 < float_mul (fl (of_int f)) (fl 1.2)) = (3000 < of_int f * (1.2::real))"
    by (rule float_threshold [where k = 2500]) (simp_all add: threshold_values)
  from transport_factor_cases [of tt]
  consider "dict_get TRANSPORT_MULTIPLIERS tt 1.0 = (1::real)"
    | "dict_get TRANSPORT_MULTIPLIERS tt 1.0 = (1.3::real)"
    | "dict_get TRANSPORT_MULTIPLIERS tt 1.0 = (0.8::real)"
    | "dict_get TRANSPORT_MULTIPLIERS tt 1.0 = (1.2::real)"
    by blast
  then show
    "(5000 < float_mul (fl (of_int f)) (fl (dict_get TRANSPORT_MULTIPLIERS tt 1.0)))
       = (5000 < of_int f * dict_get TRANSPORT_MULTIPLIERS tt 1.0)"
    "(3000 < float_mul (fl (of_int f)) (fl (dict_get TRANSPORT_MULTIPLIERS tt 1.0)))
       = (3000 < of_int f * dict_get TRANSPORT_MULTIPLIERS tt 1.0)"
    using 1 2 3 4 5 6 7 8 by (cases; simp only:)+
qed

lemma hour_multiplier_cases:
  "dict_get HOUR_MULTIPLIERS h 0.8
     \<in> {0.2, 0.3, 0.4, 0.5, 0.7, 0.8, 0.9, 1, 1.2, 1.3, 1.4, 1.5 :: real}"
proof (cases "0 \<le> h \<and> h \<le> 23")
  case True
  then have "h \<in> {0, 1, 2, 3, 4, 5, 6, 7, 8, 9, 10, 11, 12, 13, 14, 15, 16, 17, 18, 19, 20,
              21, 22, 23}"
    by (simp; arith)
  then show ?thesis
    by (elim insertE emptyE) (simp_all add: dict_get_def HOUR_MULTIPLIERS_def)
next
  case False
  then show ?thesis
    by (simp add: dict_get_def hour_out_of_table)
qed


lemma literal_comparisons:
  "(fl 1.2 < fl 0.2) = (1.2 < (0.2::real))" "(fl 0.9 < fl 0.2) = (0.9 < (0.2::real))"
  "(fl 1.2 < fl 0.3) = (1.2 < (0.3::real))" "(fl 0.9 < fl 0.3) = (0.9 < (0.3::real))"
  "(fl 1.2 < fl 0.4) = (1.2 < (0.4::real))" "(fl 0.9 < fl 0.4) = (0.9 < (0.4::real))"
  "(fl 1.2 < fl 0.5) = (1.2 < (0.5::real))" "(fl 0.9 < fl 0.5) = (0.9 < (0.5::real))"
  "(fl 1.2 < fl 0.7) = (1.2 < (0.7::real))" "(fl 0.9 < fl 0.7) = (0.9 < (0.7::real))"
  "(fl 1.2 < fl 0.8) = (1.2 < (0.8::real))" "(fl 0.9 < fl 0.8) = (0.9 < (0.8::real))"
  "(fl 1.2 < fl 0.9) = (1.2 < (0.9::real))" "(fl 0.9 < fl 0.9) = (0.9 < (0.9::real))"
  "(fl 1.2 < fl 1) = (1.2 < (1::real))" "(fl 0.9 < fl 1) = (0.9 < (1::real))"
  "(fl 1.2 < fl 1.2) = (1.2 < (1.2::real))" "(fl 0.9 < fl 1.2) = (0.9 < (1.2::real))"
  "(fl 1.2 < fl 1.3) = (1.2 < (1.3::real))" "(fl 0.9 < fl 1.3) = (0.9 < (1.3::real))"
  "(fl 1.2 < fl 1.4) = (1.2 < (1.4::real))" "(fl 0.9 < fl 1.4) = (0.9 < (1.4::real))"
  "(fl 1.2 < fl 1.5) = (1.2 < (1.5::real))" "(fl 0.9 < fl 1.5) = (0.9 < (1.5::real))"
  by (simp_all add: threshold_values)

lemma hour_multiplier_comparisons:
  "(fl 1.2 < fl (dict_get HOUR_MULTIPLIERS h 0.8)) = (1.2 < dict_get HOUR_MULTIPLIERS h 0.8)"
  "(fl 0.9 < fl (dict_get HOUR_MULTIPLIERS h 0.8)) = (0.9 < dict_get HOUR_MULTIPLIERS h 0.8)"
proof -
  from hour_multiplier_cases [of h]
  consider "dict_get HOUR_MULTIPLIERS h 0.8 = (0.2::real)"
    | "dict_get HOUR_MULTIPLIERS h 0.8 = (0.3::real)"
    | "dict_get HOUR_MULTIPLIERS h 0.8 = (0.4::real)"
    | "dict_get HOUR_MULTIPLIERS h 0.8 = (0.5::real)"
    | "dict_get HOUR_MULTIPLIERS h 0.8 = (0.7::real)"
    | "dict_get HOUR_MULTIPLIERS h 0.8 = (0.8::real)"
    | "dict_get HOUR_MULTIPLIERS h 0.8 = (0.9::real)"
    | "dict_get HOUR_MULTIPLIERS h 0.8 = (1::real)"
    | "dict_get HOUR_MULTIPLIERS h 0.8 = (1.2::real)"
    | "dict_get HOUR_MULTIPLIERS h 0.8 = (1.3::real)"
    | "dict_get HOUR_MULTIPLIERS h 0.8 = (1.4::real)"
    | "dict_get HOUR_MULTIPLIERS h 0.8 = (1.5::real)"
    by blast
  then show
    "(fl 1.2 < fl (dict_get HOUR_MULTIPLIERS h 0.8)) = (1.2 < dict_get HOUR_MULTIPLIERS h 0.8)"
    "(fl 0.9 < fl (dict_get HOUR_MULTIPLIERS h 0.8)) = (0.9 < dict_get HOUR_MULTIPLIERS h 0.8)"
    by (cases; simp only: literal_comparisons)+
qed

text \<open>
  The level of the model is the level computed with doubles throughout, for the
  multiplier of any hour, any transport type and any footfall.
\<close>

lemma congestion_level_in_floats:
  "calculate_congestion_level f tt (dict_get HOUR_MULTIPLIERS h 0.8) =
     (let multiplier = fl (dict_get HOUR_MULTIPLIERS h 0.8);
          transport_factor = fl (dict_get TRANSPORT_MULTIPLIERS tt 1.0);
          adjusted_footfall = float_mul (fl (of_int f)) transport_factor
      in if fl 1.2 < multiplier \<and> 5000 < adjusted_footfall then ''High''
         else if fl 0.9 < multiplier \<and> 3000 < adjusted_footfall then ''Medium''
         else ''Low'')"
  unfolding Let_def hour_multiplier_comparisons adjusted_footfall_comparisons
  by (simp add: calculate_congestion_level_def Let_def)

text \<open>
  The current footfall at four inputs. The float product of 90 and 0.7 is just below 63,
  that of 7 and 0.8 just above 5.6, and that of the double nearest to 187575/90 and
  1.2 just below 2501.
\<close>

lemma current_footfall_9_6000: "calculate_current_footfall 9 6000 = (9000, 1.5)"
proof -
  have lit: "fl 1.5 = 1.5"
    by (rule fl_literals)
  have prod: "fl (6000 * 1.5) = 9000"
    by (rule fl_eval [where e = 13 and n = 4947802324992000])
      (simp_all add: py_round_def Let_def)
  have fm: "float_mul 6000 (fl 1.5) = 9000"
    by (simp only: float_mul_def lit prod)
  have "py_int (float_mul 6000 (fl 1.5)) = 9000"
    by (simp only: fm) (simp add: py_int_def)
  moreover have "dict_get HOUR_MULTIPLIERS 9 0.8 = (1.5::real)"
    by (simp add: dict_get_def HOUR_MULTIPLIERS_def)
  ultimately show ?thesis
    by (simp only: calculate_current_footfall_def Let_def)
qed

lemma current_footfall_14_90: "calculate_current_footfall 14 90 = (62, 0.7)"
proof -
  have lit: "fl 0.7 = 3152519739159347 / 2 ^ 52"
    by (rule fl_literals)
  have prod: "fl (90 * (3152519739159347 / 2 ^ 52)) = 8866461766385663 / 2 ^ 47"
    by (rule fl_eval [where e = 5 and n = 8866461766385663])
      (simp_all add: py_round_def Let_def)
  have fm: "float_mul 90 (fl 0.7) = 8866461766385663 / 2 ^ 47"
    by (simp only: float_mul_def lit prod)
  have "py_int (float_mul 90 (fl 0.7)) = 62"
    by (simp only: fm) (simp add: py_int_def)
  moreover have "dict_get HOUR_MULTIPLIERS 14 0.8 = (0.7::real)"
    by (simp add: dict_get_def HOUR_MULTIPLIERS_def)
  ultimately show ?thesis
    by (simp only: calculate_current_footfall_def Let_def)
qed

lemma float_product_7_7: "float_mul 7 (fl 0.8) = 6305039478318695 / 2 ^ 50"
proof -
  have lit: "fl 0.8 = 3602879701896397 / 2 ^ 52"
    by (rule fl_literals)
  have prod: "fl (7 * (3602879701896397 / 2 ^ 52)) = 6305039478318695 / 2 ^ 50"
    by (rule fl_eval [where e = 2 and n = 6305039478318695])
      (simp_all add: py_round_def Let_def)
  show ?thesis
    by (simp only: float_mul_def lit prod)
qed

lemma current_footfall_10_mean:
  "calculate_current_footfall 10 (4583130968446293 / 2 ^ 41) = (2500, 1.2)"
proof -
  have lit: "fl 1.2 = 5404319552844595 / 2 ^ 52"
    by (rule fl_literals)
  have prod: "fl (4583130968446293 / 2 ^ 41 * (5404319552844595 / 2 ^ 52))
      = 5499757162135551 / 2 ^ 41"
    by (rule fl_eval [where e = 11 and n = 5499757162135551])
      (simp_all add: py_round_def Let_def)
  have fm: "float_mul (4583130968446293 / 2 ^ 41) (fl 1.2) = 5499757162135551 / 2 ^ 41"
    by (simp only: float_mul_def lit prod)
  have "py_int (float_mul (4583130968446293 / 2 ^ 41) (fl 1.2)) = 2500"
    by (simp only: fm) (simp add: py_int_def)
  moreover have "dict_get HOUR_MULTIPLIERS 10 0.8 = (1.2::real)"
    by (simp add: dict_get_def HOUR_MULTIPLIERS_def)
  ultimately show ?thesis
    by (simp only: calculate_current_footfall_def Let_def)
qed

text \<open>
  C1. Whatever the transport type, the hour and the base daily footfall (as long as its
  product with the hour multiplier does not overflow), the estimator returns the current
  footfall together with the level that the first matching rule gives for it: High when
  the hour multiplier exceeds 1.2 and the adjusted footfall exceeds 5000, Medium when the
  hour multiplier exceeds 0.9 and the adjusted footfall exceeds 3000, Low otherwise. The
  adjusted footfall is the current footfall times the transport multiplier (metro 1.0,
  railway 1.3, bus 0.8, signal 1.2), and the factor compared with 1.2 and 0.9 is the hour
  multiplier. A base of 6000 at a railway station at hour 9 gives the current footfall
  9000 and the level High.
\<close>

theorem estimate_level_rules:
  assumes "\<bar>base\<bar> < 2 ^ 1000"
  shows "estimate hour base tt =
     (let hourMultiplier = dict_get HOUR_MULTIPLIERS hour 0.8;
          currentFootfall = fst (calculate_current_footfall hour base);
          adjustedFootfall = of_int currentFootfall * dict_get TRANSPORT_MULTIPLIERS tt 1.0
      in (currentFootfall,
          if hourMultiplier > 1.2 \<and> adjustedFootfall > 5000 then ''High''
          else if hourMultiplier > 0.9 \<and> adjustedFootfall > 3000 then ''Medium''
          else ''Low''))
   \<and> map (\<lambda>t. dict_get TRANSPORT_MULTIPLIERS t 1.0)
        [''metro'', ''railway'', ''bus'', ''signal''] = [1.0, 1.3, 0.8, 1.2]
   \<and> estimate 9 6000 ''railway'' = (9000, ''High'')"
proof (intro conjI)
  show "estimate 9 6000 ''railway'' = (9000, ''High'')"
    by (simp add: estimate_def current_footfall_9_6000 calculate_congestion_level_def
          dict_get_def TRANSPORT_MULTIPLIERS_def)
qed (simp_all add: estimate_def calculate_current_footfall_def
       calculate_congestion_level_def Let_def dict_get_def TRANSPORT_MULTIPLIERS_def)

theorem estimate_level_rules_witness:
  "\<bar>4583130968446293 / 2 ^ 41\<bar> < (2::real) ^ 1000
   \<and> estimate 10 (4583130968446293 / 2 ^ 41) ''signal'' = (2500, ''Low'')
   \<and> estimate 9 6000 ''railway'' = (9000, ''High'')"
proof -
  have h: "\<bar>4583130968446293 / 2 ^ 41\<bar> < (2::real) ^ 1000"
    by simp
  from estimate_level_rules [OF h, of 10 "''signal''"]
  have "estimate 10 (4583130968446293 / 2 ^ 41) ''signal'' = (2500, ''Low'')"
    and "estimate 9 6000 ''railway'' = (9000, ''High'')"
    unfolding current_footfall_10_mean
    by (simp_all add: dict_get_def HOUR_MULTIPLIERS_def TRANSPORT_MULTIPLIERS_def)
  with h show ?thesis
    by blast
qed

text \<open>
  C2, as stated, fails: the current footfall is not the rounded product. At hour 7 (hour
  multiplier 0.8) a base of 7 gives the product 5.6 (the float product is
  5.6000000000000005), which rounds to 6, and the code returns 5.
\<close>

theorem current_footfall_is_not_rounded:
  "fst (calculate_current_footfall 7 7) = 5
   \<and> py_round (float_mul 7 (fl (dict_get HOUR_MULTIPLIERS 7 0.8))) = 6
   \<and> py_round (7 * dict_get HOUR_MULTIPLIERS 7 0.8) = 6
   \<and> round (7 * dict_get HOUR_MULTIPLIERS 7 0.8 :: real) = 6"
proof -
  have tab: "dict_get HOUR_MULTIPLIERS 7 0.8 = (0.8::real)"
    by (simp add: dict_get_def HOUR_MULTIPLIERS_def)
  have 1: "fst (calculate_current_footfall 7 7) = 5"
    by (simp only: calculate_current_footfall_def Let_def tab fst_conv float_product_7_7)
      (simp add: py_int_def)
  have 2: "py_round (float_mul 7 (fl (dict_get HOUR_MULTIPLIERS 7 0.8))) = 6"
    by (simp only: tab float_product_7_7) (simp add: py_round_def Let_def)
  have 3: "py_round (7 * dict_get HOUR_MULTIPLIERS 7 0.8) = 6"
    "round (7 * dict_get HOUR_MULTIPLIERS 7 0.8 :: real) = 6"
    unfolding tab by (simp_all add: py_round_def round_def Let_def)
  from 1 2 3 show ?thesis
    by blast
qed

text \<open>
  C2, amended. For every hour and every base daily footfall (as long as the product does
  not overflow), the current footfall is the float product of the base and the hour
  multiplier truncated toward zero (Python's int), not rounded. The hour multiplier is
  the entry of the table for an hour from 0 to 23 (the table has exactly these 24 keys;
  1.5 at hours 9 and 18, 0.2 at hour 2), and 0.8 for any other hour.
\<close>

theorem current_footfall_truncates:
  assumes "\<bar>base\<bar> < 2 ^ 1000"
  shows "calculate_current_footfall hour base =
     (let hourMultiplier =
            (if 0 \<le> hour \<and> hour \<le> 23 then snd (HOUR_MULTIPLIERS ! nat hour) else 0.8)
      in (py_int (float_mul base (fl hourMultiplier)), hourMultiplier))
   \<and> map fst HOUR_MULTIPLIERS = [0..23]
   \<and> dict_get HOUR_MULTIPLIERS 9 0.8 = 1.5
   \<and> dict_get HOUR_MULTIPLIERS 18 0.8 = 1.5
   \<and> dict_get HOUR_MULTIPLIERS 2 0.8 = 0.2"
proof (intro conjI)
  show "calculate_current_footfall hour base =
     (let hourMultiplier =
            (if 0 \<le> hour \<and> hour \<le> 23 then snd (HOUR_MULTIPLIERS ! nat hour) else 0.8)
      in (py_int (float_mul base (fl hourMultiplier)), hourMultiplier))"
    unfolding calculate_current_footfall_def hour_multiplier_get by (simp add: Let_def)
  show "map fst HOUR_MULTIPLIERS = [0..23]"
    by (simp add: HOUR_MULTIPLIERS_def upto_rec1)
qed (simp_all add: dict_get_def HOUR_MULTIPLIERS_def)

theorem current_footfall_truncates_witness:
  "\<bar>90\<bar> < (2::real) ^ 1000
   \<and> calculate_current_footfall 14 90 = (62, 0.7)
   \<and> py_int (float_mul 90 (fl 0.7)) = 62
   \<and> py_int (90 * 0.7) = 63"
proof -
  have h: "\<bar>90\<bar> < (2::real) ^ 1000"
    by simp
  from current_footfall_truncates [OF h, of 14, THEN conjunct1]
  have eq: "calculate_current_footfall 14 90 = (py_int (float_mul 90 (fl 0.7)), 0.7)"
    by (simp add: HOUR_MULTIPLIERS_def Let_def)
  then have "py_int (float_mul 90 (fl 0.7)) = 62"
    by (simp only: current_footfall_14_90 prod.inject)
  moreover have "py_int (90 * 0.7) = 63"
    by (simp add: py_int_def)
  ultimately show ?thesis
    using h current_footfall_14_90 by blast
qed

text \<open>
  C7. For a fixed transport type and a fixed base daily footfall, the level is monotone in
  the hour multiplier: when \<open>m1 \<le> m2\<close>, the level computed with \<open>m2\<close> (from the current
  footfall \<open>int(base * m2)\<close>) is not lower than the level computed with \<open>m1\<close>, in the
  order Low (1), Medium (2), High (3) of the code's own scores. In particular this holds
  for the multipliers of any two hours.
\<close>

theorem level_monotone_in_hour_multiplier:
  assumes "m1 \<le> m2"
  shows "level_score (calculate_congestion_level (py_int (base * m1)) tt m1)
           \<le> level_score (calculate_congestion_level (py_int (base * m2)) tt m2)
     \<and> (dict_get HOUR_MULTIPLIERS h1 0.8 = m1 \<and> dict_get HOUR_MULTIPLIERS h2 0.8 = m2 \<longrightarrow>
          level_score (snd (estimate h1 base tt)) \<le> level_score (snd (estimate h2 base tt)))"
proof -
  define t where "t = dict_get TRANSPORT_MULTIPLIERS tt (1.0::real)"
  have t: "0 < t"
    unfolding t_def by (rule transport_factor_pos)
  have key: "of_int (py_int (base * m1)) * t \<le> of_int (py_int (base * m2)) * t"
    if "0 < m1" and "0 < of_int (py_int (base * m1)) * t"
  proof -
    from that(2) t have "0 < py_int (base * m1)"
      by (simp add: zero_less_mult_iff)
    then have "0 < base * m1"
      by (rule py_int_pos_imp)
    with that(1) have "0 < base"
      by (simp add: zero_less_mult_iff)
    with assms have "base * m1 \<le> base * m2"
      by simp
    then have "py_int (base * m1) \<le> py_int (base * m2)"
      by (rule py_int_mono)
    with t show ?thesis
      by simp
  qed
  have main: "level_score (calculate_congestion_level (py_int (base * m1)) tt m1)
           \<le> level_score (calculate_congestion_level (py_int (base * m2)) tt m2)"
    unfolding level_score_cases t_def[symmetric]
    using assms key by (auto split: if_splits)
  define c1 where "c1 = py_int (float_mul base (fl m1))"
  define c2 where "c2 = py_int (float_mul base (fl m2))"
  have fkey: "of_int c1 * t \<le> of_int c2 * t" if "0 < m1" and "0 < of_int c1 * t"
  proof -
    from that(2) t have "0 < c1"
      by (simp add: zero_less_mult_iff)
    then have "0 < fl (base * fl m1)"
      unfolding c1_def float_mul_def by (rule py_int_pos_imp)
    then have pos: "0 < base * fl m1"
      by (rule fl_pos_imp)
    from that(1) have "0 \<le> fl m1"
      by (simp add: fl_nonneg)
    with pos have "0 < base"
      by (simp add: zero_less_mult_iff)
    moreover from assms have "fl m1 \<le> fl m2"
      by (rule fl_mono)
    ultimately have "base * fl m1 \<le> base * fl m2"
      by simp
    then have "fl (base * fl m1) \<le> fl (base * fl m2)"
      by (rule fl_mono)
    then have "c1 \<le> c2"
      unfolding c1_def c2_def float_mul_def by (rule py_int_mono)
    with t show ?thesis
      by simp
  qed
  have fmain: "level_score (calculate_congestion_level c1 tt m1)
           \<le> level_score (calculate_congestion_level c2 tt m2)"
    unfolding level_score_cases t_def[symmetric]
    using assms fkey by (auto split: if_splits)
  have "snd (estimate h base tt) =
      calculate_congestion_level
        (py_int (float_mul base (fl (dict_get HOUR_MULTIPLIERS h 0.8)))) tt
        (dict_get HOUR_MULTIPLIERS h 0.8)" for h
    by (simp add: estimate_def calculate_current_footfall_def Let_def)
  with main fmain show ?thesis
    by (auto simp add: c1_def c2_def)
qed

theorem level_monotone_in_hour_multiplier_witness:
  "(0.9::real) \<le> 1.5
   \<and> level_score (calculate_congestion_level (py_int (6000 * 0.9)) ''railway'' 0.9) = 1
   \<and> level_score (calculate_congestion_level (py_int (6000 * 1.5)) ''railway'' 1.5) = 3
   \<and> level_score (snd (estimate 12 6000 ''railway''))
       \<le> level_score (snd (estimate 9 6000 ''railway''))"
proof -
  have h: "(0.9::real) \<le> 1.5"
    by simp
  have tab: "dict_get HOUR_MULTIPLIERS 12 0.8 = (0.9::real)"
    "dict_get HOUR_MULTIPLIERS 9 0.8 = (1.5::real)"
    by (simp_all add: dict_get_def HOUR_MULTIPLIERS_def)
  from level_monotone_in_hour_multiplier [OF h, of 6000 "''railway''" 12 9] tab
  have "level_score (snd (estimate 12 6000 ''railway''))
       \<le> level_score (snd (estimate 9 6000 ''railway''))"
    by blast
  then show ?thesis
    by (simp add: level_score_cases dict_get_def TRANSPORT_MULTIPLIERS_def py_int_def)
qed

section \<open>The area aggregation\<close>

lemma collect_locations_filter:
  "collect_locations gen m tt locs acc =
     collect_locations gen m tt (filter (fetch_ok gen tt) locs) acc"
proof (induction locs arbitrary: acc)
  case Nil
  show ?case by simp
next
  case (Cons l locs)
  obtain s c where acc: "acc = (s, c)"
    by (cases acc)
  show ?case
    unfolding acc
    by (cases "get_location_data gen l tt 90") (simp_all add: fetch_ok_def Let_def Cons.IH)
qed

lemma collect_area_surviving:
  "collect_area gen m area_data acc = collect_area gen m (surviving gen area_data) acc"
proof (induction area_data arbitrary: acc)
  case Nil
  show ?case by (simp add: surviving_def)
next
  case (Cons p rest)
  obtain tt locs where p: "p = (tt, locs)"
    by (cases p)
  have "collect_area gen m (p # rest) acc =
      collect_area gen m rest (collect_locations gen m tt locs acc)"
    by (simp add: p)
  also have "\<dots> =
      collect_area gen m (surviving gen rest)
        (collect_locations gen m tt (filter (fetch_ok gen tt) locs) acc)"
    using Cons.IH collect_locations_filter by metis
  finally show ?case
    by (simp add: p surviving_def)
qed

text \<open>
  The two accumulators stay in step: the scores are the scores of the components'
  levels, and the components are those of the members that answered, in order.
\<close>

lemma collect_locations_inv:
  "collect_locations gen m tt locs (s, c) = (s', c') \<Longrightarrow>
   s = map (level_score \<circ> comp_congestion) c \<Longrightarrow>
   s' = map (level_score \<circ> comp_congestion) c' \<and>
   map comp_location c' = map comp_location c @ filter (fetch_ok gen tt) locs"
proof (induction locs arbitrary: s c)
  case Nil
  then show ?case by auto
next
  case (Cons l locs)
  show ?case
  proof (cases "get_location_data gen l tt 90")
    case None
    with Cons.prems show ?thesis
      using Cons.IH [of s c] by (simp add: fetch_ok_def)
  next
    case (Some data)
    define f where "f = py_int (float_mul (stat_mean (resp_statistics data)) (fl m))"
    define g where "g = calculate_congestion_level f tt m"
    show ?thesis
    proof (cases "resp_success data")
      case True
      with Some Cons.prems show ?thesis
        using Cons.IH [of "s @ [level_score g]"
            "c @ [\<lparr>comp_location = l, comp_type = tt, comp_footfall = f,
                   comp_congestion = g\<rparr>]"]
        by (simp add: fetch_ok_def Let_def f_def g_def)
    next
      case False
      with Some Cons.prems show ?thesis
        using Cons.IH [of s c] by (simp add: fetch_ok_def)
    qed
  qed
qed

lemma collect_area_inv:
  "collect_area gen m area_data (s, c) = (s', c') \<Longrightarrow>
   s = map (level_score \<circ> comp_congestion) c \<Longrightarrow>
   s' = map (level_score \<circ> comp_congestion) c' \<and>
   map comp_location c' = map comp_location c @ concat (map snd (surviving gen area_data))"
proof (induction area_data arbitrary: s c)
  case Nil
  then show ?case by (auto simp add: surviving_def)
next
  case (Cons p rest)
  obtain tt locs where p: "p = (tt, locs)"
    by (cases p)
  obtain s1 c1 where step: "collect_locations gen m tt locs (s, c) = (s1, c1)"
    by (cases "collect_locations gen m tt locs (s, c)")
  from collect_locations_inv [OF step Cons.prems(2)]
  have inv1: "s1 = map (level_score \<circ> comp_congestion) c1"
    and loc1: "map comp_location c1 = map comp_location c @ filter (fetch_ok gen tt) locs"
    by simp_all
  from Cons.prems(1) have "collect_area gen m rest (s1, c1) = (s', c')"
    by (simp add: p step)
  from Cons.IH [OF this inv1] loc1 show ?case
    by (simp add: p surviving_def)
qed

lemma area_prediction_of_collect:
  assumes "collect_area gen (dict_get HOUR_MULTIPLIERS current_hour 0.8) area_data ([], [])
             = (s, c)"
  shows "area_prediction_of gen current_hour area_name area_data =
     (if s = [] then Inl (HTTPException 404 ''No data available for this area'')
      else Inr \<lparr>ap_area = area_name,
             ap_overall_congestion =
               (if 2.5 \<le> real_of_int (sum_list s) / real (length s) then ''High''
                else if 1.5 \<le> real_of_int (sum_list s) / real (length s) then ''Medium''
                else ''Low''),
             ap_congestion_score = py_round2 (real_of_int (sum_list s) / real (length s)),
             ap_current_hour = current_hour,
             ap_components = c\<rparr>)"
  using assms by (simp add: area_prediction_of_def Let_def)

lemma bandra_entry: "map_of AREA_MAPPING ''Bandra'' = Some bandra_members"
  by (simp add: AREA_MAPPING_def bandra_members_def)

text \<open>
  C5. An area result has at least one component; its score is the arithmetic mean of the
  components' levels mapped to Low 1, Medium 2, High 3; the overall level is High when
  that mean, unrounded, is at least 2.5, Medium when it is at least 1.5, Low otherwise;
  only the reported score is rounded to two decimals. Two components with the levels High
  and Low give the score 2.0 and the overall level Medium. (\<open>get_area_prediction\<close> is
  \<open>area_prediction_of\<close> at the area's entry of the table.)
\<close>

theorem area_score_is_mean_of_levels:
  assumes "area_prediction_of gen current_hour area_name area_data = Inr r"
  shows "ap_components r \<noteq> [] \<and>
     (let scores = map (level_score \<circ> comp_congestion) (ap_components r);
          score = real_of_int (sum_list scores) / real (length scores)
      in ap_overall_congestion r =
           (if 2.5 \<le> score then ''High'' else if 1.5 \<le> score then ''Medium'' else ''Low'')
         \<and> ap_congestion_score r = py_round2 score)
     \<and> map level_score [''Low'', ''Medium'', ''High''] = [1, 2, 3]
     \<and> (map comp_congestion (ap_components r) = [''High'', ''Low''] \<longrightarrow>
          ap_congestion_score r = 2 \<and> ap_overall_congestion r = ''Medium'')"
proof -
  define m where "m = dict_get HOUR_MULTIPLIERS current_hour (0.8::real)"
  obtain s c where col: "collect_area gen m area_data ([], []) = (s, c)"
    by (cases "collect_area gen m area_data ([], [])")
  from collect_area_inv [OF col] have inv: "s = map (level_score \<circ> comp_congestion) c"
    by simp
  note unf = area_prediction_of_collect [OF col [unfolded m_def], of area_name]
  from assms have ne: "s \<noteq> []"
    unfolding unf by (auto split: if_splits)
  from assms ne
  have r: "r = \<lparr>ap_area = area_name,
             ap_overall_congestion =
               (if 2.5 \<le> real_of_int (sum_list s) / real (length s) then ''High''
                else if 1.5 \<le> real_of_int (sum_list s) / real (length s) then ''Medium''
                else ''Low''),
             ap_congestion_score = py_round2 (real_of_int (sum_list s) / real (length s)),
             ap_current_hour = current_hour,
             ap_components = c\<rparr>"
    unfolding unf by simp
  have comps: "ap_components r = c"
    by (simp add: r)
  have 1: "ap_components r \<noteq> []"
    using ne inv comps by auto
  have 2: "let scores = map (level_score \<circ> comp_congestion) (ap_components r);
          score = real_of_int (sum_list scores) / real (length scores)
      in ap_overall_congestion r =
           (if 2.5 \<le> score then ''High'' else if 1.5 \<le> score then ''Medium'' else ''Low'')
         \<and> ap_congestion_score r = py_round2 score"
    unfolding comps inv [symmetric] by (simp add: r Let_def)
  have 3: "map level_score [''Low'', ''Medium'', ''High''] = [1, 2, 3]"
    by (simp add: level_score_def dict_get_def)
  have 4: "ap_congestion_score r = 2 \<and> ap_overall_congestion r = ''Medium''"
    if "map comp_congestion (ap_components r) = [''High'', ''Low'']"
  proof -
    have "s = map level_score (map comp_congestion c)"
      using inv by simp
    also have "\<dots> = [3, 1]"
      using that comps by (simp add: level_score_def dict_get_def)
    finally have "s = [3, 1]" .
    then show ?thesis
      by (simp add: r py_round2_def py_round_def)
  qed
  from 1 2 3 4 show ?thesis
    by blast
qed

lemma bandra_prediction:
  "area_prediction_of gen_bandra 9 ''Bandra'' bandra_members =
     Inr \<lparr>ap_area = ''Bandra'', ap_overall_congestion = ''Medium'',
          ap_congestion_score = 2, ap_current_hour = 9,
          ap_components =
            [\<lparr>comp_location = ''Bandra'', comp_type = ''railway'', comp_footfall = 9000,
              comp_congestion = ''High''\<rparr>,
             \<lparr>comp_location = ''Bandra Bus Stand'', comp_type = ''bus'',
              comp_footfall = 1500, comp_congestion = ''Low''\<rparr>]\<rparr>"
  by (simp add: area_prediction_of_def bandra_members_def gen_bandra_def
        response_with_mean_def get_location_data_def call_data_generator_def
        calculate_congestion_level_def dict_get_def HOUR_MULTIPLIERS_def
        TRANSPORT_MULTIPLIERS_def level_score_def float_mul_def double_values py_int_def
        py_round2_def py_round_def Let_def)

theorem area_score_is_mean_of_levels_witness:
  "\<exists>r. area_prediction_of gen_bandra 9 ''Bandra'' bandra_members = Inr r \<and>
     map comp_congestion (ap_components r) = [''High'', ''Low''] \<and>
     ap_congestion_score r = 2 \<and> ap_overall_congestion r = ''Medium'' \<and>
     get_area_prediction gen_bandra 9 ''Bandra'' = Inr r"
  using area_score_is_mean_of_levels [OF bandra_prediction] bandra_prediction
  by (simp add: get_area_prediction_def bandra_entry)

text \<open>
  C6. In an area request a member whose fetch fails is skipped: the result is the one
  computed from the surviving members alone, so the failed member adds no component and
  does not change the score. When no member survives the request fails with 404, No data
  available for this area; otherwise it returns a result whose components are the
  surviving members, in order.
\<close>

theorem area_skips_failed_members:
  assumes "map_of AREA_MAPPING area_name = Some area_data"
  shows "get_area_prediction gen current_hour area_name =
           area_prediction_of gen current_hour area_name (surviving gen area_data)
     \<and> (if concat (map snd (surviving gen area_data)) = []
        then get_area_prediction gen current_hour area_name =
               Inl (HTTPException 404 ''No data available for this area'')
        else \<exists>r. get_area_prediction gen current_hour area_name = Inr r \<and>
               map comp_location (ap_components r) =
                 concat (map snd (surviving gen area_data)))"
proof -
  define m where "m = dict_get HOUR_MULTIPLIERS current_hour (0.8::real)"
  obtain s c where col: "collect_area gen m area_data ([], []) = (s, c)"
    by (cases "collect_area gen m area_data ([], [])")
  from collect_area_inv [OF col]
  have inv: "s = map (level_score \<circ> comp_congestion) c"
    and locs: "map comp_location c = concat (map snd (surviving gen area_data))"
    by simp_all
  note unf = area_prediction_of_collect [OF col [unfolded m_def], of area_name]
  have top: "get_area_prediction gen current_hour area_name =
      area_prediction_of gen current_hour area_name area_data"
    by (simp add: get_area_prediction_def assms)
  have 1: "area_prediction_of gen current_hour area_name area_data =
           area_prediction_of gen current_hour area_name (surviving gen area_data)"
    unfolding area_prediction_of_def
    by (subst collect_area_surviving) (rule refl)
  have empty_iff: "s = [] \<longleftrightarrow> concat (map snd (surviving gen area_data)) = []"
    using inv locs by (metis map_is_Nil_conv)
  have 2: "area_prediction_of gen current_hour area_name area_data =
               Inl (HTTPException 404 ''No data available for this area'')"
    if "concat (map snd (surviving gen area_data)) = []"
    using that empty_iff by (simp add: unf)
  have 3: "\<exists>r. area_prediction_of gen current_hour area_name area_data = Inr r \<and>
               map comp_location (ap_components r) =
                 concat (map snd (surviving gen area_data))"
    if "concat (map snd (surviving gen area_data)) \<noteq> []"
    using that empty_iff locs by (simp add: unf)
  from 1 2 3 show ?thesis
    unfolding top by simp
qed

lemma surviving_partial:
  "surviving gen_partial bandra_members =
     [(''metro'', []), (''railway'', []), (''bus'', [''Bandra Bus Stand'']),
      (''signals'', [])]"
  by (simp add: surviving_def bandra_members_def fetch_ok_def get_location_data_def
        call_data_generator_def gen_partial_def response_with_mean_def)

lemma surviving_down:
  "surviving gen_down bandra_members =
     [(''metro'', []), (''railway'', []), (''bus'', []), (''signals'', [])]"
  by (simp add: surviving_def bandra_members_def fetch_ok_def get_location_data_def
        call_data_generator_def gen_down_def)

theorem area_skips_failed_members_witness:
  "map_of AREA_MAPPING ''Bandra'' = Some bandra_members
   \<and> (\<exists>r. get_area_prediction gen_partial 9 ''Bandra'' = Inr r \<and>
         map comp_location (ap_components r) = [''Bandra Bus Stand''])
   \<and> get_area_prediction gen_down 9 ''Bandra'' =
       Inl (HTTPException 404 ''No data available for this area'')"
proof -
  from area_skips_failed_members [OF bandra_entry, of gen_partial 9, THEN conjunct2]
  have partial: "\<exists>r. get_area_prediction gen_partial 9 ''Bandra'' = Inr r \<and>
         map comp_location (ap_components r) = [''Bandra Bus Stand'']"
    by (simp add: surviving_partial)
  from area_skips_failed_members [OF bandra_entry, of gen_down 9, THEN conjunct2]
  have down: "get_area_prediction gen_down 9 ''Bandra'' =
       Inl (HTTPException 404 ''No data available for this area'')"
    by (simp add: surviving_down)
  from bandra_entry partial down show ?thesis
    by blast
qed

section \<open>The series generator\<close>

lemma generate_rows_append:
  "generate_rows env base multiplier days start_date ks data =
     data @ map (day_entry env base multiplier days start_date) ks"
  by (induction ks arbitrary: data) simp_all

lemma generate_transport_data_map:
  assumes "map_of BASE_FOOTFALL transport_type = Some base"
  shows "generate_transport_data env location_name transport_type days =
     Inr (map (day_entry env base (dict_get LOCATION_MULTIPLIERS location_name 1.0) days
                 (env_today env - days)) [0 ..< nat days])"
  using assms by (simp add: generate_transport_data_def generate_rows_append Let_def)

text \<open>
  For each of the four base constants the float product \<open>base * 0.2\<close> is the whole
  number \<open>base / 5\<close>, so truncating it and rounding it agree, in float and in exact
  arithmetic.
\<close>

lemma base_footfall_enum:
  "\<exists>base. map_of BASE_FOOTFALL (TransportType_value t) = Some base \<and>
      py_int (float_mul (of_int base) (fl 0.2)) = py_round (of_int base * 0.2) \<and>
      py_round (float_mul (of_int base) (fl 0.2)) = py_round (of_int base * 0.2) \<and>
      0 \<le> py_int (float_mul (of_int base) (fl 0.2))"
  by (cases t)
    (simp_all add: BASE_FOOTFALL_def float_mul_def double_values py_int_def py_round_def)

lemma day_entry_ds:
  "entry_ds (day_entry env base multiplier days start_date day) = start_date + int day"
  by (simp add: day_entry_def Let_def)

lemma day_entry_floor:
  "py_int (float_mul (of_int base) (fl 0.2))
     \<le> entry_y (day_entry env base multiplier days start_date day)"
  by (simp add: day_entry_def Let_def)

lemma parse_TransportType_value: "parse_TransportType (TransportType_value t) = Some t"
  by (cases t) (simp_all add: parse_TransportType_def)

text \<open>
  C3. For every location, every transport type of the enum, every environment (date,
  random draws, sine) and every number of days: when days is from 1 to 365 the request
  model accepts the request and the generator returns a series of exactly days entries,
  the entry of index i is dated \<open>today - days + i\<close> (one entry per day, no gaps, strictly
  increasing), and every value is an integer at least \<open>round(base * 0.2)\<close> for the
  transport type's base constant, hence non-negative; any other number of days is
  rejected by the request model with a validation error.
\<close>

theorem generate_series_shape:
  "if 1 \<le> days \<and> days \<le> 365
   then \<exists>base data.
          parse_DataGenerationRequest location_name (TransportType_value t) days =
            Inr \<lparr>req_location_name = location_name, req_transport_type = t,
                 req_days = days\<rparr> \<and>
          map_of BASE_FOOTFALL (TransportType_value t) = Some base \<and>
          generate_transport_data env location_name (TransportType_value t) days = Inr data \<and>
          length data = nat days \<and>
          (\<forall>i<nat days. entry_ds (data ! i) = env_today env - days + int i) \<and>
          (\<forall>i j. i < j \<and> j < nat days \<longrightarrow> entry_ds (data ! i) < entry_ds (data ! j)) \<and>
          (\<forall>e\<in>set data. py_round (of_int base * 0.2) \<le> entry_y e \<and> 0 \<le> entry_y e) \<and>
          py_round (float_mul (of_int base) (fl 0.2)) = py_round (of_int base * 0.2)
   else parse_DataGenerationRequest location_name (TransportType_value t) days =
          Inl RequestValidationError"
proof (cases "1 \<le> days \<and> days \<le> 365")
  case False
  then show ?thesis
    by (auto simp add: parse_DataGenerationRequest_def parse_TransportType_value)
next
  case True
  obtain base where base: "map_of BASE_FOOTFALL (TransportType_value t) = Some base"
    and fl: "py_int (float_mul (of_int base) (fl 0.2)) = py_round (of_int base * 0.2)"
    and rd: "py_round (float_mul (of_int base) (fl 0.2)) = py_round (of_int base * 0.2)"
    and nonneg: "0 \<le> py_int (float_mul (of_int base) (fl 0.2))"
    using base_footfall_enum by blast
  define f where
    "f = day_entry env base (dict_get LOCATION_MULTIPLIERS location_name 1.0) days
           (env_today env - days)"
  define data where "data = map f [0 ..< nat days]"
  have gen: "generate_transport_data env location_name (TransportType_value t) days
      = Inr data"
    unfolding data_def f_def by (rule generate_transport_data_map [OF base])
  have len: "length data = nat days"
    by (simp add: data_def)
  have ds: "entry_ds (data ! i) = env_today env - days + int i" if "i < nat days" for i
    using that by (simp add: data_def f_def day_entry_ds)
  have incr: "entry_ds (data ! i) < entry_ds (data ! j)" if "i < j" "j < nat days" for i j
    using that ds [of i] ds [of j] by simp
  have vals: "py_round (of_int base * 0.2) \<le> entry_y e \<and> 0 \<le> entry_y e"
    if "e \<in> set data" for e
  proof -
    from that obtain k where "e = f k"
      by (auto simp: data_def)
    then have "py_int (float_mul (of_int base) (fl 0.2)) \<le> entry_y e"
      unfolding f_def by (simp only: day_entry_floor)
    with fl nonneg show ?thesis
      by simp
  qed
  have parse: "parse_DataGenerationRequest location_name (TransportType_value t) days =
            Inr \<lparr>req_location_name = location_name, req_transport_type = t,
                 req_days = days\<rparr>"
    using True by (simp add: parse_DataGenerationRequest_def parse_TransportType_value)
  from True parse base gen len ds incr vals rd show ?thesis
    by auto
qed

theorem generate_series_shape_witness:
  "(1::int) \<le> 2 \<and> (2::int) \<le> 365 \<and>
   (\<exists>data. generate_transport_data env_monday ''DN Nagar'' ''metro'' 2 = Inr data \<and>
      length data = 2 \<and> entry_ds (data ! 0) = 738885 \<and> entry_ds (data ! 1) = 738886 \<and>
      1000 \<le> entry_y (data ! 0) \<and> 1000 \<le> entry_y (data ! 1))"
proof -
  have fl: "py_round (of_int 5000 * 0.2) = 1000"
    by (simp add: py_round_def)
  from generate_series_shape [of 2 "''DN Nagar''" metro env_monday]
  obtain base data where
    "map_of BASE_FOOTFALL ''metro'' = Some base"
    "generate_transport_data env_monday ''DN Nagar'' ''metro'' 2 = Inr data"
    "length data = 2"
    "\<forall>i<2. entry_ds (data ! i) = env_today env_monday - 2 + int i"
    "\<forall>e\<in>set data. py_round (of_int base * 0.2) \<le> entry_y e \<and> 0 \<le> entry_y e"
    by auto
  moreover from this have "base = 5000"
    by (simp add: BASE_FOOTFALL_def)
  moreover from calculation have "data ! 0 \<in> set data" "data ! 1 \<in> set data"
    by simp_all
  ultimately show ?thesis
    using fl by (auto simp add: env_monday_def)
qed

text \<open>
  The value of a day at two inputs. On Monday 2024-01-01, for the metro station DN Nagar
  (multiplier 1.0) and a window of one day, with the noise draw 0.75 and no event, every
  operation is exact and the accumulated value is 6500.75. For the metro station
  Ghatkopar (multiplier 1.2) on day 1 of a window of 30 days, the same Monday, with the
  noise draw 0 and no event, the float product of 7800 and the seasonal factor is just
  below 7852.
\<close>

lemma day_entry_dn_nagar:
  "day_entry env_monday 5000 (dict_get LOCATION_MULTIPLIERS ''DN Nagar'' 1.0) 1 738886 0
     = \<lparr>entry_ds = 738886, entry_y = 6500\<rparr>"
  by (simp add: day_entry_def env_monday_def LOCATION_MULTIPLIERS_def dict_get_def
        weekday_def float_mul_def float_add_def float_div_def double_values py_int_def
        Let_def)

lemma day_entry_ghatkopar:
  "day_entry env_january 5000 (dict_get LOCATION_MULTIPLIERS ''Ghatkopar'' 1.0) 30 738885 1
     = \<lparr>entry_ds = 738886, entry_y = 7851\<rparr>"
  by (simp add: day_entry_def env_january_def LOCATION_MULTIPLIERS_def dict_get_def
        weekday_def float_mul_def float_add_def float_div_def double_values py_int_def
        Let_def)

text \<open>
  C4, as stated, fails: the value of a day is not the rounded accumulated value. On
  Monday 2024-01-01, for the metro station DN Nagar over a window of one day, with the
  noise draw 0.75 and no event, the accumulated value is 6500.75 (in float and in exact
  arithmetic): rounding gives 6501, and the series holds 6500.
\<close>

theorem day_value_is_not_rounded:
  "generate_transport_data env_monday ''DN Nagar'' ''metro'' 1 =
     Inr [\<lparr>entry_ds = 738886, entry_y = 6500\<rparr>]
   \<and> max (py_round (float_mul 5000 (fl 0.2)))
        (py_round (float_add (float_add (float_mul (float_mul (float_mul 5000 (fl 1.0))
           (fl 1.3)) (float_add 1 (float_mul (float_div 0 1) (fl 0.2))))
           (float_mul (fl (sin (float_div (float_mul (float_mul 2 (fl pi)) 0) 7)))
              (float_mul 5000 (fl 0.1)))) 0.75)) = 6501
   \<and> max (py_round (5000 * 0.2))
        (py_round (5000 * 1.0 * 1.3 * (1 + (0 / 1) * 0.2)
                   + sin (2 * pi * 0 / 7) * (5000 * 0.1) + 0.75)) = 6501"
proof -
  have base: "map_of BASE_FOOTFALL ''metro'' = Some 5000"
    by (simp add: BASE_FOOTFALL_def)
  have 1: "generate_transport_data env_monday ''DN Nagar'' ''metro'' 1 =
     Inr [\<lparr>entry_ds = 738886, entry_y = 6500\<rparr>]"
    unfolding generate_transport_data_map [OF base]
    using day_entry_dn_nagar by (simp add: env_monday_def)
  have 2: "max (py_round (float_mul 5000 (fl 0.2)))
        (py_round (float_add (float_add (float_mul (float_mul (float_mul 5000 (fl 1.0))
           (fl 1.3)) (float_add 1 (float_mul (float_div 0 1) (fl 0.2))))
           (float_mul (fl (sin (float_div (float_mul (float_mul 2 (fl pi)) 0) 7)))
              (float_mul 5000 (fl 0.1)))) 0.75)) = 6501"
    by (simp add: float_mul_def float_add_def float_div_def double_values py_round_def
          Let_def)
  have 3: "max (py_round (5000 * 0.2))
        (py_round (5000 * 1.0 * 1.3 * (1 + (0 / 1) * 0.2)
                   + sin (2 * pi * 0 / 7) * (5000 * 0.1) + 0.75)) = 6501"
    by (simp add: py_round_def Let_def)
  from 1 2 3 show ?thesis
    by blast
qed

text \<open>
  C4, amended. For every day \<open>d\<close> of the window and fixed draws, the value of the day
  is \<open>max(int(base * 0.2), int(accumulated))\<close>, both conversions truncating toward
  zero, where the accumulated value is the base constant times the location multiplier,
  times 1.3 on a weekday (Monday to Friday) or 0.7 on a weekend day, times the seasonal
  factor \<open>1 + (d / days) * 0.2\<close>, times the event boost when the event fires (the
  draw of random() is below 0.05), plus the weekly term \<open>sin(2 pi weekday / 7) * (base *
  0.1)\<close> and the noise draw, every operation being an operation on floats and the sine
  the library's.
\<close>

theorem day_value_truncates:
  assumes "map_of BASE_FOOTFALL transport_type = Some base" and "d < nat days"
  shows "\<exists>data. generate_transport_data env location_name transport_type days = Inr data \<and>
     entry_y (data ! d) =
       (let wd = weekday (env_today env - days + int d);
            dr = env_draws env d;
            scaled =
              float_mul
                (float_mul
                   (float_mul (of_int base)
                      (fl (dict_get LOCATION_MULTIPLIERS location_name 1.0)))
                   (fl (if wd < 5 then 1.3 else 0.7)))
                (float_add 1 (float_mul (float_div (real d) (of_int days)) (fl 0.2)));
            boosted =
              (if draw_random dr < fl 0.05 then float_mul scaled (draw_uniform dr)
               else scaled);
            weekly =
              float_mul
                (env_sin env (float_div (float_mul (float_mul 2 (fl pi)) (of_int wd)) 7))
                (float_mul (of_int base) (fl 0.1));
            accumulated_value = float_add (float_add boosted weekly) (draw_normal dr)
        in max (py_int (float_mul (of_int base) (fl 0.2))) (py_int accumulated_value))"
  using assms(2)
  by (simp add: generate_transport_data_map [OF assms(1)] day_entry_def Let_def)

theorem day_value_truncates_witness:
  "map_of BASE_FOOTFALL ''metro'' = Some 5000 \<and> (1::nat) < nat 30 \<and>
   (\<exists>data. generate_transport_data env_january ''Ghatkopar'' ''metro'' 30 = Inr data \<and>
      entry_y (data ! 1) = 7851) \<and>
   py_int (5000 * 1.2 * 1.3 * (1 + (1 / 30) * 0.2)) = 7852"
proof -
  have b: "map_of BASE_FOOTFALL ''metro'' = Some 5000"
    by (simp add: BASE_FOOTFALL_def)
  have d: "(1::nat) < nat 30"
    by simp
  have v: "entry_y (day_entry env_january 5000
      (dict_get LOCATION_MULTIPLIERS ''Ghatkopar'' 1.0) 30 738885 1) = 7851"
    by (simp only: day_entry_ghatkopar entry.simps)
  from day_value_truncates [OF b d, of env_january "''Ghatkopar''"]
  obtain data where
    gen: "generate_transport_data env_january ''Ghatkopar'' ''metro'' 30 = Inr data"
    by blast
  then have "entry_y (data ! 1) = 7851"
    unfolding generate_transport_data_map [OF b]
    using v by (auto simp add: env_january_def)
  moreover have "py_int (5000 * 1.2 * 1.3 * (1 + (1 / 30) * 0.2)) = 7852"
    by (simp add: py_int_def)
  ultimately show ?thesis
    using b d gen by blast
qed

section \<open>The statistics\<close>

lemma fold_min_replicate: "fold min (replicate k v) (v::int) = v"
  by (induction k) simp_all

lemma fold_max_replicate: "fold max (replicate k v) (v::int) = v"
  by (induction k) simp_all

lemma series_mean_replicate: "0 < n \<Longrightarrow> series_mean (replicate n v) = of_int v"
  by (simp add: series_mean_def sum_list_replicate)

lemma sort_replicate: "sort (replicate n (v::int)) = replicate n v"
  by (simp add: sorted_sort_id sorted_replicate)

lemma series_median_replicate: "0 < n \<Longrightarrow> series_median (replicate n v) = of_int v"
  by (auto simp add: series_median_def sort_replicate Let_def elim!: oddE evenE)

lemma sq_dev_replicate:
  "sum_list (map (\<lambda>x. (of_int x - (of_int v :: real))\<^sup>2) (replicate n v)) = 0"
  by (induction n) simp_all

lemma series_std_replicate: "2 \<le> n \<Longrightarrow> series_std (replicate n v) = Float 0"
  by (simp only: series_std_def Let_def series_mean_replicate sq_dev_replicate
        length_replicate) simp

lemma fold_min_Min: "fold min vs (v::int) = Min (set (v # vs))"
  by (rule Min.set_eq_fold [symmetric])

lemma fold_max_Max: "fold max vs (v::int) = Max (set (v # vs))"
  by (rule Max.set_eq_fold [symmetric])

text \<open>
  C8, as stated, fails for a series of one value: its standard deviation is NaN, not 0.
\<close>

theorem single_value_std_is_not_zero:
  "summarize (replicate 1 5) =
      Inr \<lparr>stat_mean = 5, stat_median = 5, stat_min = 5, stat_max = 5, stat_std = NaN\<rparr>
   \<and> NaN \<noteq> Float 0"
  by (simp add: summarize_def series_mean_def series_median_def series_std_def)

text \<open>
  C8, amended. A series of at least two identical values \<open>v\<close> has mean, median,
  minimum and maximum \<open>v\<close> and standard deviation 0. For every non-empty series the
  statistics are the mean (sum over length), the median (the middle value of the sorted
  series, or the average of the two middle values when the length is even), the least
  and the greatest value, and the sample standard deviation (the squared deviations from
  the mean divided by \<open>n - 1\<close>), which is NaN when the series has one value.
\<close>

theorem summarize_constant_series:
  assumes "2 \<le> n" and "ys \<noteq> []"
  shows "summarize (replicate n v) =
      Inr \<lparr>stat_mean = of_int v, stat_median = of_int v, stat_min = v, stat_max = v,
           stat_std = Float 0\<rparr>
    \<and> (\<exists>s. summarize ys = Inr s \<and>
          stat_mean s = of_int (sum_list ys) / of_nat (length ys) \<and>
          stat_median s =
            (if odd (length ys) then of_int (sort ys ! (length ys div 2))
             else (of_int (sort ys ! (length ys div 2 - 1))
                    + of_int (sort ys ! (length ys div 2))) / 2) \<and>
          stat_min s = Min (set ys) \<and> stat_max s = Max (set ys) \<and>
          stat_std s =
            (if length ys < 2 then NaN
             else Float (sqrt (sum_list (map (\<lambda>y. (of_int y - stat_mean s)\<^sup>2) ys)
                                / of_nat (length ys - 1)))))"
proof -
  from assms(1) obtain k where n: "n = Suc k"
    by (cases n) auto
  have rep: "replicate n v = v # replicate k v"
    by (simp add: n)
  have pos: "0 < n"
    using assms(1) by simp
  have m1: "series_mean (v # replicate k v) = of_int v"
    using series_mean_replicate [OF pos, of v] by (simp only: rep)
  have m2: "series_median (v # replicate k v) = of_int v"
    using series_median_replicate [OF pos, of v] by (simp only: rep)
  have m3: "series_std (v # replicate k v) = Float 0"
    using series_std_replicate [OF assms(1), of v] by (simp only: rep)
  have 1: "summarize (replicate n v) =
      Inr \<lparr>stat_mean = of_int v, stat_median = of_int v, stat_min = v, stat_max = v,
           stat_std = Float 0\<rparr>"
    by (simp only: rep summarize_def list.case m1 m2 m3 fold_min_replicate
          fold_max_replicate)
  from assms(2) obtain y0 rest where ys: "ys = y0 # rest"
    by (cases ys) auto
  have 2: "\<exists>s. summarize ys = Inr s \<and>
          stat_mean s = of_int (sum_list ys) / of_nat (length ys) \<and>
          stat_median s =
            (if odd (length ys) then of_int (sort ys ! (length ys div 2))
             else (of_int (sort ys ! (length ys div 2 - 1))
                    + of_int (sort ys ! (length ys div 2))) / 2) \<and>
          stat_min s = Min (set ys) \<and> stat_max s = Max (set ys) \<and>
          stat_std s =
            (if length ys < 2 then NaN
             else Float (sqrt (sum_list (map (\<lambda>y. (of_int y - stat_mean s)\<^sup>2) ys)
                                / of_nat (length ys - 1))))"
    unfolding ys summarize_def
    by (simp add: fold_min_Min fold_max_Max series_mean_def series_median_def
          series_std_def Let_def
          del: sort_key_simps Min_insert Max_insert set_simps)
  from 1 2 show ?thesis
    by blast
qed

theorem summarize_constant_series_witness:
  "(2::nat) \<le> 3 \<and> [1, 3, 2] \<noteq> ([]::int list) \<and>
   summarize (replicate 3 7) =
     Inr \<lparr>stat_mean = 7, stat_median = 7, stat_min = 7, stat_max = 7,
          stat_std = Float 0\<rparr> \<and>
   summarize [1, 3, 2] =
     Inr \<lparr>stat_mean = 2, stat_median = 2, stat_min = 1, stat_max = 3,
          stat_std = Float 1\<rparr>"
proof -
  have a: "(2::nat) \<le> 3"
    by simp
  have b: "[1, 3, 2] \<noteq> ([]::int list)"
    by simp
  have c: "summarize [1, 3, 2] =
      Inr \<lparr>stat_mean = 2, stat_median = 2, stat_min = 1, stat_max = 3,
           stat_std = Float 1\<rparr>"
    by (simp add: summarize_def series_mean_def series_median_def series_std_def Let_def)
  from summarize_constant_series [OF a b, of 7] c show ?thesis
    by simp
qed





section \<open>Failures of the data generator in a location request\<close>

text \<open>
  C9, as stated, fails: when the data generator is down, the request for a known location
  fails with the status 404, the status of an unknown location; the 503 that
  \<open>call_data_generator\<close> raises does not reach the caller.
\<close>

theorem outage_surfaces_as_not_found:
  "get_location_prediction gen_down 9 ''Andheri'' =
     Inl (HTTPException 404 ''Data not available'')
   \<and> get_location_prediction gen_down 9 ''Nowhere'' =
     Inl (HTTPException 404 ''Location not found'')
   \<and> status_code (HTTPException 404 ''Data not available'') =
     status_code (HTTPException 404 ''Location not found'')
   \<and> call_data_generator (gen_down ''Andheri'' ''metro'' 90) =
     Inl (HTTPException 503 ''Data generator service unavailable'')"
  by (simp add: get_location_prediction_def get_transport_type_def METRO_STATIONS_def
        RAILWAY_STATIONS_def BUS_STATIONS_def TRAFFIC_SIGNALS_def get_location_data_def
        call_data_generator_def gen_down_def)

text \<open>
  C9, amended. For a known location, when the call to the data generator fails with any
  error \<open>e\<close> (the 503 of an outage, or the status of an HTTP error), the request fails
  with 404 and the detail Data not available, whatever \<open>e\<close> was; an unknown location
  fails with 404 and the detail Location not found. The two failures have the same
  status and differ in the detail only.
\<close>

theorem location_fetch_failure_is_404:
  assumes "get_transport_type location_name = Some transport_type"
    and "call_data_generator (gen location_name transport_type 90) = Inl e"
    and "get_transport_type other = None"
  shows "get_location_prediction gen current_hour location_name =
           Inl (HTTPException 404 ''Data not available'')
     \<and> get_location_prediction gen current_hour other =
           Inl (HTTPException 404 ''Location not found'')"
  using assms by (simp add: get_location_prediction_def get_location_data_def)

theorem location_fetch_failure_is_404_witness:
  "get_transport_type ''Andheri'' = Some ''metro''
   \<and> call_data_generator (gen_down ''Andheri'' ''metro'' 90) =
        Inl (HTTPException 503 ''Data generator service unavailable'')
   \<and> get_transport_type ''Nowhere'' = None
   \<and> get_location_prediction gen_down 9 ''Andheri'' =
        Inl (HTTPException 404 ''Data not available'')
   \<and> get_location_prediction gen_down 9 ''Nowhere'' =
        Inl (HTTPException 404 ''Location not found'')"
proof -
  have a: "get_transport_type ''Andheri'' = Some ''metro''"
    by (simp add: get_transport_type_def METRO_STATIONS_def)
  have b: "call_data_generator (gen_down ''Andheri'' ''metro'' 90) =
        Inl (HTTPException 503 ''Data generator service unavailable'')"
    by (simp add: call_data_generator_def gen_down_def)
  have c: "get_transport_type ''Nowhere'' = None"
    by (simp add: get_transport_type_def METRO_STATIONS_def RAILWAY_STATIONS_def
          BUS_STATIONS_def TRAFFIC_SIGNALS_def)
  from location_fetch_failure_is_404 [where gen = gen_down and current_hour = 9, OF a b c]
    a b c
  show ?thesis
    by simp
qed

end
